theory Spec2Isabelle
  imports Main
begin

section \<open>Python values\<close>

text \<open>
  The values that travel through the program are JSON documents decoded by Python's
  \<^verbatim>\<open>json\<close> module: \<^verbatim>\<open>None\<close>, booleans, numbers (integers only here), strings, lists and
  dicts. A dict is an association list; \<open>map_of\<close> reads it, so the first binding of a key
  is the one that counts.
\<close>

datatype json =
    JNull
  | JBool bool
  | JNum int
  | JStr string
  | JArr "json list"
  | JObj "(string \<times> json) list"

type_synonym pydict = "(string \<times> json) list"

text \<open>\<^verbatim>\<open>d.get(k)\<close>: the value, or \<^verbatim>\<open>None\<close> when the key is absent.\<close>

definition dict_get :: "pydict \<Rightarrow> string \<Rightarrow> json" where
  "dict_get d k = (case map_of d k of None \<Rightarrow> JNull | Some v \<Rightarrow> v)"

text \<open>\<^verbatim>\<open>d.get(k, default)\<close>.\<close>

definition dict_get_default :: "pydict \<Rightarrow> string \<Rightarrow> json \<Rightarrow> json" where
  "dict_get_default d k dflt = (case map_of d k of None \<Rightarrow> dflt | Some v \<Rightarrow> v)"

text \<open>Python truthiness, as used by \<^verbatim>\<open>x or y\<close> and \<^verbatim>\<open>if x\<close>.\<close>

fun truthy :: "json \<Rightarrow> bool" where
  "truthy JNull = False"
| "truthy (JBool b) = b"
| "truthy (JNum n) = (n \<noteq> 0)"
| "truthy (JStr s) = (s \<noteq> [])"
| "truthy (JArr xs) = (xs \<noteq> [])"
| "truthy (JObj d) = (d \<noteq> [])"

section \<open>Strings\<close>

text \<open>
  A Python \<^verbatim>\<open>str\<close> is a sequence of code points; a \<open>char\<close> here stands for the code
  point of the same number, so the model covers the strings whose code points are below 256.
  \<^verbatim>\<open>str.strip()\<close> removes the characters for which \<^verbatim>\<open>str.isspace\<close> holds; below 256
  these are 9 to 13, 28 to 31, 32, 133 and 160.
\<close>

definition is_space :: "char \<Rightarrow> bool" where
  "is_space c = ((of_char c :: nat) \<in> {9, 10, 11, 12, 13, 28, 29, 30, 31, 32, 133, 160})"

definition py_strip :: "string \<Rightarrow> string" where
  "py_strip s = rev (dropWhile is_space (rev (dropWhile is_space s)))"

text \<open>\<^verbatim>\<open>sep.join(parts)\<close>.\<close>

fun py_join :: "string \<Rightarrow> string list \<Rightarrow> string" where
  "py_join sep [] = []"
| "py_join sep [x] = x"
| "py_join sep (x # y # ys) = x @ sep @ py_join sep (y # ys)"

section \<open>Exceptions\<close>

text \<open>
  \<^verbatim>\<open>AIClientError\<close> is the only exception class of the repository; its message is an
  f-string, and \<open>ai_error\<close> keeps the template and the value interpolated in it.
  \<^verbatim>\<open>ValueError\<close> is raised by \<^verbatim>\<open>save_new_prompt\<close>; \<^verbatim>\<open>AttributeError\<close> and
  \<^verbatim>\<open>TypeError\<close> are what Python raises on \<^verbatim>\<open>x.get(...)\<close> for an \<^verbatim>\<open>x\<close> that is not a dict
  and on \<^verbatim>\<open>"\n".join(xs)\<close> for a list holding a non-string. \<^verbatim>\<open>json.loads\<close> raises a plain
  \<^verbatim>\<open>ValueError\<close> on an integer literal beyond the interpreter's digit limit and a
  \<^verbatim>\<open>RecursionError\<close> on a document nested too deep.
\<close>

datatype ai_error =
    MissingApiKey
  | CallFailed string
  | InvalidJson string
  | MissingReply json
  | EditorCallFailed string
  | EditorInvalidJson string
  | MissingPrompt json

datatype py_exception =
    AIClientError ai_error
  | ValueError string
  | AttributeError
  | TypeError
  | RecursionError

section \<open>Prompt store (prompt\_store.py)\<close>

text \<open>
  The table \<^verbatim>\<open>prompts(id, version, prompt_text, created_at)\<close> is the list of its rows in
  insertion order; the autoincremented \<^verbatim>\<open>id\<close>, which no query reads, is the position in
  the list. \<^verbatim>\<open>datetime.utcnow().isoformat()\<close> is an input from the environment: the
  \<open>n\<close>-th reading of the clock returns \<open>utcnow n\<close>, and the state counts the readings.
  The state also counts the calls made to the completion service (see the AI client).
  Failures of the storage layer itself are not modelled.
\<close>

record prompt_row =
  version :: int
  prompt_text :: string
  created_at :: string

record state =
  rows :: "prompt_row list"
  clock_reads :: nat
  llm_calls :: nat

definition DEFAULT_BASE_PROMPT :: string where
  \<open>DEFAULT_BASE_PROMPT = py_strip (py_join ''\<newline>''
    [ '''',
      ''You are a friendly, human-sounding visa consultant working for Issa Compass.'',
      '''',
      ''Your job is to reply to potential customers who are asking about the Thai DTV (Destination Thailand Visa). You:'',
      ''- Sound like a real human, not an AI'',
      ''- Use casual, warm language similar to WhatsApp or LINE chats'',
      ''- Are concise but supportive, and avoid long walls of text'',
      ''- Use occasional emojis when they feel natural, but don't overdo it'',
      ''- Are always honest about requirements and timelines'',
      ''- Clearly explain next steps and gently move high-intent users towards downloading the app, uploading documents, or booking an appointment'',
      '''',
      ''You must ALWAYS respond in JSON format only, with this schema:'',
      ''{ "reply": "string with your reply message" }'',
      '''',
      ''The input will contain:'',
      ''- clientSequence: the latest 1+ messages from the client'',
      ''- chatHistory: a list of earlier messages with roles "client" or "consultant"'',
      '''',
      ''Write your reply as if you are continuing the same chat thread. Do NOT repeat the client's question verbatim. Keep it natural and tailored to the specific situation.'',
      '''' ])\<close>

text \<open>
  \<^verbatim>\<open>SELECT ... FROM prompts ORDER BY version DESC\<close>: a stable sort, so rows of equal version
  stay in insertion order (SQLite leaves the order of ties open).
\<close>

definition order_by_version_desc :: "prompt_row list \<Rightarrow> prompt_row list" where
  "order_by_version_desc rs = sort_key (\<lambda>r. - version r) rs"

text \<open>\<^verbatim>\<open>ORDER BY version DESC LIMIT 1\<close> followed by \<^verbatim>\<open>fetchone()\<close>.\<close>

definition select_latest :: "prompt_row list \<Rightarrow> prompt_row option" where
  "select_latest rs = (case order_by_version_desc rs of [] \<Rightarrow> None | r # _ \<Rightarrow> Some r)"

text \<open>\<^verbatim>\<open>SELECT MAX(version)\<close>: \<^verbatim>\<open>NULL\<close> on an empty table.\<close>

fun sql_max :: "int list \<Rightarrow> int option" where
  "sql_max [] = None"
| "sql_max (x # xs) = Some (fold max xs x)"

text \<open>
  \<^verbatim>\<open>SELECT COALESCE(MAX(version), 0)\<close>, then \<^verbatim>\<open>cur.fetchone()[0] or 0\<close>.
\<close>

definition current_version :: "prompt_row list \<Rightarrow> int" where
  "current_version rs =
     (let v = (case sql_max (map version rs) of None \<Rightarrow> 0 | Some m \<Rightarrow> m)
      in if v \<noteq> 0 then v else 0)"

definition insert_row :: "(nat \<Rightarrow> string) \<Rightarrow> int \<Rightarrow> string \<Rightarrow> state \<Rightarrow> state" where
  "insert_row utcnow v txt s =
     s\<lparr>rows := rows s @ [\<lparr>version = v, prompt_text = txt, created_at = utcnow (clock_reads s)\<rparr>],
       clock_reads := Suc (clock_reads s)\<rparr>"

definition initialize_prompt_if_empty :: "(nat \<Rightarrow> string) \<Rightarrow> state \<Rightarrow> state" where
  "initialize_prompt_if_empty utcnow s =
     (if length (rows s) = 0 then insert_row utcnow 1 DEFAULT_BASE_PROMPT s else s)"

definition fetch_latest_text :: "prompt_row list \<Rightarrow> string option" where
  "fetch_latest_text rs =
     (case select_latest rs of
        None \<Rightarrow> None
      | Some r \<Rightarrow> if prompt_text r \<noteq> [] then Some (prompt_text r) else None)"

definition get_latest_prompt :: "(nat \<Rightarrow> string) \<Rightarrow> state \<Rightarrow> string \<times> state" where
  "get_latest_prompt utcnow s =
     (case fetch_latest_text (rows s) of
        Some txt \<Rightarrow> (txt, s)
      | None \<Rightarrow>
          (let s' = initialize_prompt_if_empty utcnow s
           in (case fetch_latest_text (rows s') of
                 Some txt \<Rightarrow> (txt, s')
               | None \<Rightarrow> (DEFAULT_BASE_PROMPT, s'))))"

definition save_new_prompt ::
  "(nat \<Rightarrow> string) \<Rightarrow> state \<Rightarrow> string \<Rightarrow> (py_exception + string) \<times> state" where
  "save_new_prompt utcnow s new_prompt =
     (if new_prompt = [] \<or> py_strip new_prompt = []
      then (Inl (ValueError ''new_prompt must be a non-empty string''), s)
      else (Inr (py_strip new_prompt),
            insert_row utcnow (current_version (rows s) + 1) (py_strip new_prompt) s))"

text \<open>
  \<^verbatim>\<open>list_prompt_versions(limit)\<close>: SQLite reads a negative \<^verbatim>\<open>LIMIT\<close> as no limit.
\<close>

definition list_prompt_versions :: "state \<Rightarrow> int \<Rightarrow> prompt_row list" where
  "list_prompt_versions s limit =
     (if limit < 0 then order_by_version_desc (rows s)
      else take (nat limit) (order_by_version_desc (rows s)))"

section \<open>Dataset builder (dataset\_builder.py)\<close>

text \<open>
  A conversation is a dict read with \<^verbatim>\<open>convo.get("contact_id", "")\<close>,
  \<^verbatim>\<open>convo.get("scenario", "")\<close> and \<^verbatim>\<open>convo.get("conversation", [])\<close>: each of the three
  keys is present or absent, and the value of \<^verbatim>\<open>"conversation"\<close> is, as annotated in the
  source, a list of message dicts.
\<close>

record conversation =
  conv_contact_id :: "json option"
  conv_scenario :: "json option"
  conv_messages :: "pydict list option"

record sample =
  contact_id :: json
  scenario :: json
  client_sequence :: "json list"
  consultant_reply :: "json list"
  chat_history :: "pydict list"

text \<open>
  The two inner loops
  \<^verbatim>\<open>while i < n and messages[i].get("direction") == d: seq.append(messages[i]); i += 1\<close>.
\<close>

function collect_run :: "string \<Rightarrow> pydict list \<Rightarrow> nat \<Rightarrow> pydict list \<Rightarrow> nat \<times> pydict list" where
  "collect_run d messages i seq =
     (if i < length messages \<and> dict_get (messages ! i) ''direction'' = JStr d
      then collect_run d messages (Suc i) (seq @ [messages ! i])
      else (i, seq))"
  by pat_completeness auto
termination
  by (relation "measure (\<lambda>(d, messages, i, seq). length messages - i)") auto

declare collect_run.simps [simp del]

definition texts_of :: "pydict list \<Rightarrow> json list" where
  "texts_of ms = map (\<lambda>m. dict_get_default m ''text'' (JStr [])) ms"

text \<open>The outer loop \<^verbatim>\<open>while i < n\<close> over one conversation.\<close>

function scan_messages ::
  "json \<Rightarrow> json \<Rightarrow> pydict list \<Rightarrow> nat \<Rightarrow> pydict list \<Rightarrow> sample list \<Rightarrow> sample list" where
  "scan_messages cid scen messages i history samples =
     (if i < length messages then
        (if dict_get (messages ! i) ''direction'' = JStr ''in'' then
           (let r1 = collect_run ''in'' messages i [];
                r2 = collect_run ''out'' messages (fst r1) [];
                client_seq = snd r1;
                consultant_seq = snd r2
            in scan_messages cid scen messages (fst r2)
                 (history @ client_seq @ consultant_seq)
                 (samples @ [\<lparr>contact_id = cid, scenario = scen,
                              client_sequence = texts_of client_seq,
                              consultant_reply = texts_of consultant_seq,
                              chat_history = history\<rparr>]))
         else scan_messages cid scen messages (Suc i) (history @ [messages ! i]) samples)
      else samples)"
  by pat_completeness auto
termination
proof -
  have ge: "i \<le> fst (collect_run d ms i seq)" for d ms i seq
    by (induction d ms i seq rule: collect_run.induct)
       (subst collect_run.simps, auto simp del: collect_run.simps)
  have gt: "Suc i \<le> fst (collect_run d ms i seq)"
    if "i < length ms" "dict_get (ms ! i) ''direction'' = JStr d" for d ms i seq
    using that ge [of "Suc i" d ms "seq @ [ms ! i]"] by (subst collect_run.simps) simp
  show ?thesis
  proof (relation "measure (\<lambda>(cid, scen, messages, i, history, samples). length messages - i)")
    fix messages :: "pydict list" and i :: nat and x xa :: "nat \<times> pydict list"
    assume a: "i < length messages" "dict_get (messages ! i) ''direction'' = JStr ''in''"
      "x = collect_run ''in'' messages i []" "xa = collect_run ''out'' messages (fst x) []"
    have "Suc i \<le> fst x" using a gt by simp
    moreover have "fst x \<le> fst xa" using a ge by simp
    ultimately have "length messages - fst xa < length messages - i" using a by arith
    then show "((cid, scen, messages, fst xa, history @ xb @ xc, samples @ [smp]),
                (cid, scen, messages, i, history, samples))
               \<in> measure (\<lambda>(cid, scen, messages, i, history, samples). length messages - i)"
      for cid scen :: json and history xb xc :: "pydict list" and samples :: "sample list" and smp
      by simp
  qed auto
qed

definition build_samples :: "conversation list \<Rightarrow> sample list" where
  "build_samples conversations =
     fold (\<lambda>convo samples.
             scan_messages
               (case conv_contact_id convo of None \<Rightarrow> JStr [] | Some c \<Rightarrow> c)
               (case conv_scenario convo of None \<Rightarrow> JStr [] | Some c \<Rightarrow> c)
               (case conv_messages convo of None \<Rightarrow> [] | Some ms \<Rightarrow> ms)
               0 [] samples)
          conversations []"

declare scan_messages.simps [simp del]

section \<open>AI client (ai\_client.py)\<close>

text \<open>
  The completion service is outside the program. A request is the system message, the
  user payload (the value handed to \<^verbatim>\<open>json.dumps\<close>) and the temperature in tenths; the
  model name and the response format \<^verbatim>\<open>json_object\<close> are the same in every call. The
  service answers the \<open>n\<close>-th call of a run with \<open>llm n request\<close>: an \<^verbatim>\<open>OpenAIError\<close>
  with its text, or a completion whose message content may be \<^verbatim>\<open>None\<close>.

  \<^verbatim>\<open>json.loads\<close> and the \<^verbatim>\<open>str()\<close> of a parsed value inside an f-string belong to
  Python's library and are parameters. \<open>json_loads\<close> returns the parsed value, or says
  which exception the library raises: \<^verbatim>\<open>JSONDecodeError\<close> on a text that is no JSON, a
  plain \<^verbatim>\<open>ValueError\<close> (with its message) on an integer literal of too many digits, or
  \<^verbatim>\<open>RecursionError\<close> on a text nested too deep. Only the first is caught by the
  \<^verbatim>\<open>except json.JSONDecodeError\<close> of the two functions.
\<close>

datatype llm_result = OpenAIError string | Completion "string option"

datatype loads_result =
    Loaded json
  | JSONDecodeError
  | LoadsValueError string
  | LoadsRecursionError

record llm_request =
  system_content :: string
  user_payload :: json
  temperature_tenths :: nat

record env =
  api_key :: "string option"
  json_loads :: "string \<Rightarrow> loads_result"
  py_str :: "json \<Rightarrow> string"
  llm :: "nat \<Rightarrow> llm_request \<Rightarrow> llm_result"
  utcnow :: "nat \<Rightarrow> string"

text \<open>\<^verbatim>\<open>str(exc)\<close> of an \<^verbatim>\<open>AIClientError\<close>.\<close>

fun ai_error_message :: "(json \<Rightarrow> string) \<Rightarrow> ai_error \<Rightarrow> string" where
  "ai_error_message str MissingApiKey =
     ''OPENAI_API_KEY is not set. Please configure it in your .env file.''"
| "ai_error_message str (CallFailed exc) = ''Error calling OpenAI: '' @ exc"
| "ai_error_message str (InvalidJson message_content) =
     ''Model did not return valid JSON. Raw content: '' @ message_content"
| "ai_error_message str (MissingReply parsed) =
     ''Model JSON missing 'reply' field or not a string: '' @ str parsed"
| "ai_error_message str (EditorCallFailed exc) = ''Error calling OpenAI editor: '' @ exc"
| "ai_error_message str (EditorInvalidJson message_content) =
     ''Editor model did not return valid JSON. Raw content: '' @ message_content"
| "ai_error_message str (MissingPrompt parsed) =
     ''Editor JSON missing 'prompt' field or not a string: '' @ str parsed"

text \<open>\<^verbatim>\<open>_get_openai_client\<close>: fails when the key is unset or empty.\<close>

definition has_api_key :: "env \<Rightarrow> bool" where
  "has_api_key e = (case api_key e of None \<Rightarrow> False | Some k \<Rightarrow> k \<noteq> [])"

text \<open>\<^verbatim>\<open>completion.choices[0].message.content or "{}"\<close>.\<close>

definition content_or_empty_object :: "string option \<Rightarrow> string" where
  "content_or_empty_object content =
     (case content of None \<Rightarrow> ''{}'' | Some c \<Rightarrow> if c \<noteq> [] then c else ''{}'')"

text \<open>
  \<^verbatim>\<open>parsed.get(field)\<close> followed by the \<^verbatim>\<open>isinstance(..., str)\<close> test; a parsed value
  that is no dict has no \<^verbatim>\<open>get\<close>.
\<close>

definition extract_field ::
  "string \<Rightarrow> (json \<Rightarrow> ai_error) \<Rightarrow> json \<Rightarrow> py_exception + string" where
  "extract_field field missing parsed =
     (case parsed of
        JObj d \<Rightarrow>
          (case dict_get d field of
             JStr v \<Rightarrow> Inr v
           | _ \<Rightarrow> Inl (AIClientError (missing parsed)))
      | _ \<Rightarrow> Inl AttributeError)"

definition generate_chat_reply ::
  "env \<Rightarrow> state \<Rightarrow> json \<Rightarrow> (py_exception + string) \<times> state" where
  "generate_chat_reply e s payload =
     (let (base_prompt, s1) = get_latest_prompt (utcnow e) s
      in if \<not> has_api_key e then (Inl (AIClientError MissingApiKey), s1)
         else
           (let s2 = s1\<lparr>llm_calls := Suc (llm_calls s1)\<rparr>
            in case llm e (llm_calls s1)
                      \<lparr>system_content = base_prompt, user_payload = payload,
                       temperature_tenths = 4\<rparr> of
                 OpenAIError exc \<Rightarrow> (Inl (AIClientError (CallFailed exc)), s2)
               | Completion content \<Rightarrow>
                   (let message_content = content_or_empty_object content
                    in case json_loads e message_content of
                         JSONDecodeError \<Rightarrow>
                           (Inl (AIClientError (InvalidJson message_content)), s2)
                       | LoadsValueError msg \<Rightarrow> (Inl (ValueError msg), s2)
                       | LoadsRecursionError \<Rightarrow> (Inl RecursionError, s2)
                       | Loaded parsed \<Rightarrow> (extract_field ''reply'' MissingReply parsed, s2))))"

definition EDITOR_PROMPT :: string where
  \<open>EDITOR_PROMPT = py_strip (py_join ''\<newline>''
    [ '''',
      ''You are an expert AI prompt engineer helping improve a visa-consultant chatbot prompt.'',
      '''',
      ''You will be given:'',
      ''1) existingPrompt: the current chatbot system prompt'',
      ''2) clientSequence: latest 1+ client messages'',
      ''3) chatHistory: previous messages in the conversation'',
      ''4) consultantReply: the real reply written by a human Issa Compass consultant'',
      ''5) predictedReply: the reply produced by the AI using existingPrompt'',
      '''',
      ''Your job:'',
      ''- Carefully compare consultantReply vs predictedReply'',
      ''- Infer what is missing or wrong in existingPrompt (logic, style, tone, sales motions, risk warnings, etc.)'',
      ''- Make **surgical** edits to existingPrompt to better match the human consultant behaviour'',
      ''- Preserve all good parts of the prompt; only change what is necessary'',
      '''',
      ''You MUST respond in JSON format only:'',
      ''{ "prompt": "the full updated system prompt, as a string" }'',
      '''' ])\<close>

definition improve_prompt_with_editor ::
  "env \<Rightarrow> state \<Rightarrow> string \<Rightarrow> json \<Rightarrow> pydict list \<Rightarrow> json \<Rightarrow> string
     \<Rightarrow> (py_exception + string) \<times> state" where
  "improve_prompt_with_editor e s existing_prompt client_seq history
       consultant_text predicted_reply =
     (if \<not> has_api_key e then (Inl (AIClientError MissingApiKey), s)
      else
        (let payload = JObj [(''existingPrompt'', JStr existing_prompt),
                             (''clientSequence'', client_seq),
                             (''chatHistory'', JArr (map JObj history)),
                             (''consultantReply'', consultant_text),
                             (''predictedReply'', JStr predicted_reply)];
             s2 = s\<lparr>llm_calls := Suc (llm_calls s)\<rparr>
         in case llm e (llm_calls s)
                   \<lparr>system_content = EDITOR_PROMPT, user_payload = payload,
                    temperature_tenths = 3\<rparr> of
              OpenAIError exc \<Rightarrow> (Inl (AIClientError (EditorCallFailed exc)), s2)
            | Completion content \<Rightarrow>
                (let message_content = content_or_empty_object content
                 in case json_loads e message_content of
                      JSONDecodeError \<Rightarrow>
                        (Inl (AIClientError (EditorInvalidJson message_content)), s2)
                    | LoadsValueError msg \<Rightarrow> (Inl (ValueError msg), s2)
                    | LoadsRecursionError \<Rightarrow> (Inl RecursionError, s2)
                    | Loaded parsed \<Rightarrow> (extract_field ''prompt'' MissingPrompt parsed, s2))))"

section \<open>HTTP service (app.py)\<close>

text \<open>
  A handler returns a status with a JSON body (\<^verbatim>\<open>jsonify(...)\<close>, 200 unless a status is
  given), or an exception leaves it unhandled: the application registers no error handler,
  so the framework answers on its own and the handler's declared bodies are not produced.
  What is written to standard output is not part of the model.
\<close>

datatype http_response = Response nat json | Unhandled py_exception

text \<open>
  \<^verbatim>\<open>request.get_json(force=True, silent=True) or {}\<close>: the argument is the decoded body,
  \<open>None\<close> when there is none or it is malformed.
\<close>

definition get_json_or_empty :: "json option \<Rightarrow> json" where
  "get_json_or_empty body =
     (case body of None \<Rightarrow> JObj [] | Some j \<Rightarrow> if truthy j then j else JObj [])"

text \<open>The negation of \<^verbatim>\<open>not isinstance(x, str) or not x.strip()\<close>.\<close>

definition is_nonblank_str :: "json \<Rightarrow> bool" where
  "is_nonblank_str x = (case x of JStr t \<Rightarrow> py_strip t \<noteq> [] | _ \<Rightarrow> False)"

definition error_body :: "string \<Rightarrow> json" where
  "error_body msg = JObj [(''error'', JStr msg)]"

text \<open>
  \<^verbatim>\<open>_normalize_chat_history\<close>, on the list of dicts its annotation declares.
\<close>

fun normalize_chat_history :: "pydict list \<Rightarrow> pydict list" where
  "normalize_chat_history [] = []"
| "normalize_chat_history (msg # raw_history) =
     (let role = dict_get msg ''role'';
          text = dict_get_default msg ''message'' (JStr [])
      in if role \<noteq> JStr ''client'' \<and> role \<noteq> JStr ''consultant''
         then normalize_chat_history raw_history
         else [(''role'', role), (''message'', text)] # normalize_chat_history raw_history)"

text \<open>
  The handlers only check that \<^verbatim>\<open>chatHistory\<close> is a list; an entry that is no dict makes
  \<^verbatim>\<open>msg.get\<close> raise inside \<^verbatim>\<open>_normalize_chat_history\<close>.
\<close>

fun as_dict :: "json \<Rightarrow> pydict option" where
  "as_dict (JObj d) = Some d"
| "as_dict _ = None"

definition normalize_entries :: "json list \<Rightarrow> py_exception + pydict list" where
  "normalize_entries items =
     (case those (map as_dict items) of
        None \<Rightarrow> Inl AttributeError
      | Some raw_history \<Rightarrow> Inr (normalize_chat_history raw_history))"

text \<open>\<^verbatim>\<open>except AIClientError as exc: return jsonify({"error": str(exc)}), 500\<close>.\<close>

definition ai_failure_response :: "env \<Rightarrow> py_exception \<Rightarrow> http_response" where
  "ai_failure_response e exn =
     (case exn of
        AIClientError err \<Rightarrow> Response 500 (error_body (ai_error_message (py_str e) err))
      | _ \<Rightarrow> Unhandled exn)"

definition health :: http_response where
  "health = Response 200 (JObj [(''status'', JStr ''ok'')])"

definition generate_reply_endpoint ::
  "env \<Rightarrow> state \<Rightarrow> json option \<Rightarrow> http_response \<times> state" where
  "generate_reply_endpoint e s body =
     (case get_json_or_empty body of
        JObj data \<Rightarrow>
          (let client_seq = dict_get data ''clientSequence'';
               history = dict_get_default data ''chatHistory'' (JArr [])
           in if \<not> is_nonblank_str client_seq
              then (Response 400 (error_body ''clientSequence must be a non-empty string''), s)
              else
                (case history of
                   JArr items \<Rightarrow>
                     (case normalize_entries items of
                        Inl exn \<Rightarrow> (Unhandled exn, s)
                      | Inr normalized \<Rightarrow>
                          (case generate_chat_reply e s
                                  (JObj [(''clientSequence'', client_seq),
                                         (''chatHistory'', JArr (map JObj normalized))]) of
                             (Inl exn, s') \<Rightarrow> (ai_failure_response e exn, s')
                           | (Inr reply, s') \<Rightarrow>
                               (Response 200 (JObj [(''aiReply'', JStr reply)]), s')))
                 | _ \<Rightarrow> (Response 400 (error_body ''chatHistory must be a list''), s)))
      | _ \<Rightarrow> (Unhandled AttributeError, s))"

definition improve_ai_endpoint ::
  "env \<Rightarrow> state \<Rightarrow> json option \<Rightarrow> http_response \<times> state" where
  "improve_ai_endpoint e s body =
     (case get_json_or_empty body of
        JObj data \<Rightarrow>
          (let client_seq = dict_get data ''clientSequence'';
               history = dict_get_default data ''chatHistory'' (JArr []);
               consultant_text = dict_get data ''consultantReply''
           in if \<not> is_nonblank_str client_seq
              then (Response 400 (error_body ''clientSequence must be a non-empty string''), s)
              else if \<not> is_nonblank_str consultant_text
              then (Response 400 (error_body ''consultantReply must be a non-empty string''), s)
              else
                (case history of
                   JArr items \<Rightarrow>
                     (case normalize_entries items of
                        Inl exn \<Rightarrow> (Unhandled exn, s)
                      | Inr normalized \<Rightarrow>
                          (case generate_chat_reply e s
                                  (JObj [(''clientSequence'', client_seq),
                                         (''chatHistory'', JArr (map JObj normalized))]) of
                             (Inl exn, s1) \<Rightarrow> (ai_failure_response e exn, s1)
                           | (Inr predicted_reply, s1) \<Rightarrow>
                               (let (existing_prompt, s2) = get_latest_prompt (utcnow e) s1
                                in case improve_prompt_with_editor e s2 existing_prompt
                                          client_seq normalized consultant_text
                                          predicted_reply of
                                     (Inl exn, s3) \<Rightarrow> (ai_failure_response e exn, s3)
                                   | (Inr updated_prompt, s3) \<Rightarrow>
                                       (case save_new_prompt (utcnow e) s3 updated_prompt of
                                          (Inl exn, s4) \<Rightarrow> (Unhandled exn, s4)
                                        | (Inr saved, s4) \<Rightarrow>
                                            (Response 200
                                               (JObj [(''predictedReply'', JStr predicted_reply),
                                                      (''updatedPrompt'', JStr updated_prompt)]),
                                             s4)))))
                 | _ \<Rightarrow> (Response 400 (error_body ''chatHistory must be a list''), s)))
      | _ \<Rightarrow> (Unhandled AttributeError, s))"

definition manual_separator :: string where
  "manual_separator = ''\<newline>\<newline># Additional manual instructions\<newline>''"

definition improve_ai_manually_endpoint ::
  "env \<Rightarrow> state \<Rightarrow> json option \<Rightarrow> http_response \<times> state" where
  "improve_ai_manually_endpoint e s body =
     (case get_json_or_empty body of
        JObj data \<Rightarrow>
          (case dict_get data ''instructions'' of
             JStr instructions \<Rightarrow>
               (if py_strip instructions = []
                then (Response 400 (error_body ''instructions must be a non-empty string''), s)
                else
                  (let (current_prompt, s1) = get_latest_prompt (utcnow e) s;
                       manual_update =
                         py_strip current_prompt @ manual_separator @ py_strip instructions
                   in case save_new_prompt (utcnow e) s1 manual_update of
                        (Inl exn, s2) \<Rightarrow> (Unhandled exn, s2)
                      | (Inr updated_prompt, s2) \<Rightarrow>
                          (Response 200 (JObj [(''updatedPrompt'', JStr updated_prompt)]), s2)))
           | _ \<Rightarrow> (Response 400 (error_body ''instructions must be a non-empty string''), s))
      | _ \<Rightarrow> (Unhandled AttributeError, s))"

section \<open>Offline self-learning pipeline (app.py)\<close>

text \<open>\<^verbatim>\<open>samples[:limit]\<close>, with Python's reading of a negative bound.\<close>

definition py_prefix :: "int \<Rightarrow> 'a list \<Rightarrow> 'a list" where
  "py_prefix limit xs =
     (if 0 \<le> limit then take (nat limit) xs else take (length xs - nat (- limit)) xs)"

text \<open>\<^verbatim>\<open>"\n".join(texts)\<close>: a \<^verbatim>\<open>TypeError\<close> unless every item is a string.\<close>

fun as_str :: "json \<Rightarrow> string option" where
  "as_str (JStr t) = Some t"
| "as_str _ = None"

definition join_lines :: "json list \<Rightarrow> py_exception + string" where
  "join_lines texts =
     (case those (map as_str texts) of
        None \<Rightarrow> Inl TypeError
      | Some ts \<Rightarrow> Inr (py_join ''\<newline>'' ts))"

definition history_for_model :: "pydict list \<Rightarrow> pydict list" where
  "history_for_model ms =
     map (\<lambda>m. [(''role'', JStr (if dict_get m ''direction'' = JStr ''in''
                                 then ''client'' else ''consultant'')),
                (''message'', dict_get_default m ''text'' (JStr []))]) ms"

text \<open>The two lines the loop prints, with the sample's index.\<close>

datatype log_line = Updated nat json | Skipped nat ai_error

text \<open>
  The body of the \<^verbatim>\<open>try\<close> for one sample: the result is the new running prompt, or the
  exception raised, with the running prompt as it stands at that point.
\<close>

definition learn_from_sample ::
  "env \<Rightarrow> state \<Rightarrow> string \<Rightarrow> string \<Rightarrow> pydict list \<Rightarrow> string
     \<Rightarrow> (py_exception \<times> string + string) \<times> state" where
  "learn_from_sample e s prompt client_seq_text history consultant_reply_text =
     (case generate_chat_reply e s
             (JObj [(''clientSequence'', JStr client_seq_text),
                    (''chatHistory'', JArr (map JObj history))]) of
        (Inl exn, s1) \<Rightarrow> (Inl (exn, prompt), s1)
      | (Inr predicted, s1) \<Rightarrow>
          (case improve_prompt_with_editor e s1 prompt (JStr client_seq_text) history
                  (JStr consultant_reply_text) predicted of
             (Inl exn, s2) \<Rightarrow> (Inl (exn, prompt), s2)
           | (Inr prompt', s2) \<Rightarrow>
               (case save_new_prompt (utcnow e) s2 prompt' of
                  (Inl exn, s3) \<Rightarrow> (Inl (exn, prompt'), s3)
                | (Inr saved, s3) \<Rightarrow> (Inr prompt', s3))))"

text \<open>
  The loop \<^verbatim>\<open>for idx, s in enumerate(samples, start=1)\<close>: an \<^verbatim>\<open>AIClientError\<close> is printed
  and the loop goes on; any other exception ends the run. The result is the running prompt
  and the lines printed.
\<close>

fun pipeline_loop ::
  "env \<Rightarrow> nat \<Rightarrow> sample list \<Rightarrow> string \<Rightarrow> log_line list \<Rightarrow> state
     \<Rightarrow> (py_exception + string \<times> log_line list) \<times> state" where
  "pipeline_loop e idx [] prompt logs s = (Inr (prompt, logs), s)"
| "pipeline_loop e idx (smp # rest) prompt logs s =
     (case join_lines (client_sequence smp) of
        Inl exn \<Rightarrow> (Inl exn, s)
      | Inr client_seq_text \<Rightarrow>
          (case join_lines (consultant_reply smp) of
             Inl exn \<Rightarrow> (Inl exn, s)
           | Inr consultant_reply_text \<Rightarrow>
               (case learn_from_sample e s prompt client_seq_text
                       (history_for_model (chat_history smp)) consultant_reply_text of
                  (Inr prompt', s') \<Rightarrow>
                    pipeline_loop e (Suc idx) rest prompt'
                      (logs @ [Updated idx (contact_id smp)]) s'
                | (Inl (AIClientError err, prompt'), s') \<Rightarrow>
                    pipeline_loop e (Suc idx) rest prompt' (logs @ [Skipped idx err]) s'
                | (Inl (exn, prompt'), s') \<Rightarrow> (Inl exn, s'))))"

text \<open>
  \<^verbatim>\<open>run_self_learning_pipeline(limit)\<close>; the conversations are what
  \<^verbatim>\<open>load_conversations\<close> read from \<^verbatim>\<open>conversations.json\<close>.
\<close>

definition run_self_learning_pipeline ::
  "env \<Rightarrow> state \<Rightarrow> conversation list \<Rightarrow> int option
     \<Rightarrow> (py_exception + string \<times> log_line list) \<times> state" where
  "run_self_learning_pipeline e s conversations limit =
     (let samples = build_samples conversations;
          samples = (case limit of None \<Rightarrow> samples | Some n \<Rightarrow> py_prefix n samples);
          (prompt, s1) = get_latest_prompt (utcnow e) s
      in pipeline_loop e 1 samples prompt [] s1)"

section \<open>Specification-side definitions\<close>

text \<open>
  The samples of a conversation as the specification describes them, by position: a run
  of client messages starts at \<open>p\<close> when the message at \<open>p\<close> is tagged \<^verbatim>\<open>"in"\<close> and the
  one before it, if any, is not. The sample of the run starting at \<open>p\<close> has the texts of
  the longest stretch of \<^verbatim>\<open>"in"\<close> messages from \<open>p\<close> on, the texts of the longest stretch
  of \<^verbatim>\<open>"out"\<close> messages right after it, and the messages before \<open>p\<close> as history.
\<close>

definition is_in :: "pydict \<Rightarrow> bool" where
  "is_in m = (dict_get m ''direction'' = JStr ''in'')"

definition is_out :: "pydict \<Rightarrow> bool" where
  "is_out m = (dict_get m ''direction'' = JStr ''out'')"

definition run_starts :: "pydict list \<Rightarrow> nat list" where
  "run_starts ms =
     filter (\<lambda>p. is_in (ms ! p) \<and> (p = 0 \<or> \<not> is_in (ms ! (p - 1)))) [0..<length ms]"

definition sample_at :: "json \<Rightarrow> json \<Rightarrow> pydict list \<Rightarrow> nat \<Rightarrow> sample" where
  "sample_at cid scen ms p =
     \<lparr>contact_id = cid, scenario = scen,
      client_sequence = texts_of (takeWhile is_in (drop p ms)),
      consultant_reply = texts_of (takeWhile is_out (dropWhile is_in (drop p ms))),
      chat_history = take p ms\<rparr>"

definition spec_samples :: "json \<Rightarrow> json \<Rightarrow> pydict list \<Rightarrow> sample list" where
  "spec_samples cid scen ms = map (sample_at cid scen ms) (run_starts ms)"

definition spec_build_samples :: "conversation list \<Rightarrow> sample list" where
  "spec_build_samples conversations =
     concat (map (\<lambda>convo.
                    spec_samples
                      (case conv_contact_id convo of None \<Rightarrow> JStr [] | Some c \<Rightarrow> c)
                      (case conv_scenario convo of None \<Rightarrow> JStr [] | Some c \<Rightarrow> c)
                      (case conv_messages convo of None \<Rightarrow> [] | Some ms \<Rightarrow> ms))
                 conversations)"

text \<open>A transcript message with the two fields the builder reads.\<close>

definition message :: "string \<Rightarrow> string \<Rightarrow> pydict" where
  "message dir txt = [(''direction'', JStr dir), (''text'', JStr txt)]"

text \<open>
  The operations of the prompt store, to speak of what any later use of the store does
  to the table.
\<close>

datatype store_op =
    GetLatestPrompt
  | InitializePromptIfEmpty
  | SaveNewPrompt string
  | ListPromptVersions int

fun apply_store_op :: "(nat \<Rightarrow> string) \<Rightarrow> store_op \<Rightarrow> state \<Rightarrow> state" where
  "apply_store_op now GetLatestPrompt s = snd (get_latest_prompt now s)"
| "apply_store_op now InitializePromptIfEmpty s = initialize_prompt_if_empty now s"
| "apply_store_op now (SaveNewPrompt t) s = snd (save_new_prompt now s t)"
| "apply_store_op now (ListPromptVersions limit) s = s"

definition apply_store_ops :: "(nat \<Rightarrow> string) \<Rightarrow> store_op list \<Rightarrow> state \<Rightarrow> state" where
  "apply_store_ops now ops s = fold (apply_store_op now) ops s"

section \<open>Facts about strings\<close>

lemma last_dropWhile_ne: "dropWhile P xs \<noteq> [] \<Longrightarrow> last (dropWhile P xs) = last xs"
  by (induction xs) (auto split: if_splits)

lemma dropWhile_id: "xs \<noteq> [] \<Longrightarrow> \<not> P (hd xs) \<Longrightarrow> dropWhile P xs = xs"
  by (cases xs) auto

lemma py_strip_Nil_iff: "py_strip s = [] \<longleftrightarrow> list_all is_space s"
proof (cases "dropWhile is_space s")
  case Nil
  have "py_strip s = []" unfolding py_strip_def Nil by simp
  moreover from Nil have "list_all is_space s" by (simp add: list_all_iff)
  ultimately show ?thesis by simp
next
  case (Cons c cs)
  then have "\<not> is_space c" by (metis hd_dropWhile list.sel(1) list.distinct(1))
  then have "dropWhile is_space (rev (c # cs)) \<noteq> []"
    by (auto simp: dropWhile_eq_Nil_conv)
  then have "py_strip s \<noteq> []" unfolding py_strip_def Cons by simp
  moreover have "\<not> list_all is_space s"
    using Cons by (metis dropWhile_eq_Nil_conv list.distinct(1) list_all_iff)
  ultimately show ?thesis by simp
qed

lemma py_strip_ends:
  assumes "py_strip s \<noteq> []"
  shows "\<not> is_space (hd (py_strip s))" and "\<not> is_space (last (py_strip s))"
proof -
  define t where "t = dropWhile is_space s"
  define u where "u = dropWhile is_space (rev t)"
  have ps: "py_strip s = rev u" by (simp add: py_strip_def t_def u_def)
  have u: "u \<noteq> []" using assms ps by simp
  then have t: "t \<noteq> []" unfolding u_def by auto
  have "\<not> is_space (hd u)" using u unfolding u_def by (rule hd_dropWhile)
  then show "\<not> is_space (last (py_strip s))"
    using u by (simp add: ps last_rev)
  have ht: "\<not> is_space (hd t)" using t unfolding t_def by (rule hd_dropWhile)
  then have "\<not> is_space (last (rev t))" using t by (simp add: last_rev)
  moreover have "last u = last (rev t)" using u unfolding u_def by (rule last_dropWhile_ne)
  ultimately show "\<not> is_space (hd (py_strip s))"
    using u by (simp add: ps hd_rev)
qed

lemma py_strip_fixed:
  assumes "s \<noteq> []" "\<not> is_space (hd s)" "\<not> is_space (last s)"
  shows "py_strip s = s"
proof -
  have a: "dropWhile is_space s = s" using assms by (simp add: dropWhile_id)
  have "hd (rev s) = last s" using assms by (simp add: hd_rev)
  then have "dropWhile is_space (rev s) = rev s"
    using assms by (simp add: dropWhile_id)
  with a show ?thesis by (simp add: py_strip_def)
qed

lemma py_strip_idem: "py_strip (py_strip s) = py_strip s"
proof (cases "py_strip s = []")
  case True
  show ?thesis unfolding True by (simp add: py_strip_def)
next
  case False
  then show ?thesis by (intro py_strip_fixed py_strip_ends)
qed

lemma blank_py_strip: "list_all is_space (py_strip s) \<longleftrightarrow> list_all is_space s"
  by (metis py_strip_Nil_iff py_strip_idem)

lemma default_not_blank: "\<not> list_all is_space DEFAULT_BASE_PROMPT"
  unfolding DEFAULT_BASE_PROMPT_def blank_py_strip
  by (simp add: is_space_def)

lemma default_not_empty: "DEFAULT_BASE_PROMPT \<noteq> []"
  using default_not_blank by auto

section \<open>Facts about the prompt store\<close>

lemma sql_max_Max: "xs \<noteq> [] \<Longrightarrow> sql_max xs = Some (Max (set xs))"
  by (cases xs) (simp_all add: Max.set_eq_fold[symmetric])

lemma current_version_Nil: "current_version [] = 0"
  by (simp add: current_version_def)

lemma current_version_Max: "rs \<noteq> [] \<Longrightarrow> current_version rs = Max (version ` set rs)"
  by (simp add: current_version_def sql_max_Max)

lemma current_version_ge: "r \<in> set rs \<Longrightarrow> version r \<le> current_version rs"
proof -
  assume r: "r \<in> set rs"
  then have "rs \<noteq> []" by auto
  then show ?thesis using r by (simp add: current_version_Max)
qed

lemma sort_key_snoc_least:
  "\<forall>x \<in> set xs. f r < f x \<Longrightarrow> sort_key f (xs @ [r]) = r # sort_key f xs"
  by (induction xs) (auto simp: sort_key_def)

lemma select_latest_Nil: "select_latest [] = None"
  by (simp add: select_latest_def order_by_version_desc_def)

lemma select_latest_None_iff: "select_latest rs = None \<longleftrightarrow> rs = []"
proof -
  have "order_by_version_desc rs = [] \<longleftrightarrow> rs = []"
    unfolding order_by_version_desc_def by (metis length_sort length_0_conv)
  then show ?thesis by (cases "order_by_version_desc rs") (auto simp: select_latest_def)
qed

lemma select_latest_snoc:
  "\<forall>x \<in> set rs. version x < version r \<Longrightarrow> select_latest (rs @ [r]) = Some r"
  by (simp add: select_latest_def order_by_version_desc_def sort_key_snoc_least)

lemma select_latest_next:
  "select_latest (rs @ [\<lparr>version = current_version rs + 1, prompt_text = t, created_at = c\<rparr>])
     = Some \<lparr>version = current_version rs + 1, prompt_text = t, created_at = c\<rparr>"
proof (rule select_latest_snoc, rule ballI)
  fix x assume "x \<in> set rs"
  then have "version x \<le> current_version rs" by (rule current_version_ge)
  then show "version x < version \<lparr>version = current_version rs + 1, prompt_text = t, created_at = c\<rparr>"
    by simp
qed

lemma fetch_latest_text_not_empty: "fetch_latest_text rs = Some t \<Longrightarrow> t \<noteq> []"
  by (auto simp: fetch_latest_text_def split: option.splits if_splits)

lemma rows_insert_row:
  "rows (insert_row now v t s) = rows s @ [\<lparr>version = v, prompt_text = t, created_at = now (clock_reads s)\<rparr>]"
  by (simp add: insert_row_def)

lemma llm_calls_insert_row: "llm_calls (insert_row now v t s) = llm_calls s"
  by (simp add: insert_row_def)

lemma get_latest_prompt_empty:
  assumes "rows s = []"
  shows "get_latest_prompt now s = (DEFAULT_BASE_PROMPT, insert_row now 1 DEFAULT_BASE_PROMPT s)"
proof -
  have a: "fetch_latest_text (rows s) = None"
    using assms by (simp add: fetch_latest_text_def select_latest_Nil)
  have b: "initialize_prompt_if_empty now s = insert_row now 1 DEFAULT_BASE_PROMPT s"
    using assms by (simp add: initialize_prompt_if_empty_def)
  have "select_latest ([] @ [\<lparr>version = 1, prompt_text = DEFAULT_BASE_PROMPT, created_at = now (clock_reads s)\<rparr>])
          = Some \<lparr>version = 1, prompt_text = DEFAULT_BASE_PROMPT, created_at = now (clock_reads s)\<rparr>"
    by (rule select_latest_snoc) simp
  then have c: "fetch_latest_text (rows (insert_row now 1 DEFAULT_BASE_PROMPT s)) = Some DEFAULT_BASE_PROMPT"
    using assms by (simp add: fetch_latest_text_def rows_insert_row default_not_empty)
  show ?thesis by (simp add: get_latest_prompt_def a b c)
qed

lemma get_latest_prompt_nonempty_rows:
  assumes "rows s \<noteq> []"
  shows "snd (get_latest_prompt now s) = s"
  using assms
  by (simp add: get_latest_prompt_def initialize_prompt_if_empty_def split: option.splits)

lemma get_latest_prompt_fetched:
  "fetch_latest_text (rows s) = Some t \<Longrightarrow> get_latest_prompt now s = (t, s)"
  by (simp add: get_latest_prompt_def)

lemma get_latest_prompt_text_not_empty: "fst (get_latest_prompt now s) \<noteq> []"
  by (auto simp: get_latest_prompt_def Let_def default_not_empty
           dest: fetch_latest_text_not_empty split: option.splits)

lemma get_latest_prompt_rows_not_empty: "rows (snd (get_latest_prompt now s)) \<noteq> []"
proof (cases "rows s = []")
  case True
  then show ?thesis by (simp add: get_latest_prompt_empty rows_insert_row)
next
  case False
  then show ?thesis by (simp add: get_latest_prompt_nonempty_rows)
qed

lemma get_latest_prompt_llm_calls: "llm_calls (snd (get_latest_prompt now s)) = llm_calls s"
proof (cases "rows s = []")
  case True
  then show ?thesis by (simp add: get_latest_prompt_empty llm_calls_insert_row)
next
  case False
  then show ?thesis by (simp add: get_latest_prompt_nonempty_rows)
qed

lemma save_new_prompt_blank:
  "list_all is_space t \<Longrightarrow>
     save_new_prompt now s t = (Inl (ValueError ''new_prompt must be a non-empty string''), s)"
  by (simp add: save_new_prompt_def py_strip_Nil_iff)

lemma save_new_prompt_ok:
  "\<not> list_all is_space t \<Longrightarrow>
     save_new_prompt now s t =
       (Inr (py_strip t), insert_row now (current_version (rows s) + 1) (py_strip t) s)"
  by (auto simp: save_new_prompt_def py_strip_Nil_iff)

lemma apply_store_op_keeps_rows:
  "rows s \<noteq> [] \<Longrightarrow> rows (apply_store_op now op s) \<noteq> []"
proof (cases op)
  case (SaveNewPrompt t)
  assume "rows s \<noteq> []"
  then show ?thesis unfolding SaveNewPrompt
    by (cases "list_all is_space t")
       (simp_all add: save_new_prompt_blank save_new_prompt_ok rows_insert_row)
qed (simp_all add: get_latest_prompt_rows_not_empty initialize_prompt_if_empty_def)

lemma apply_store_ops_keep_rows:
  "rows s \<noteq> [] \<Longrightarrow> rows (apply_store_ops now ops s) \<noteq> []"
  unfolding apply_store_ops_def
  by (induction ops arbitrary: s) (simp_all add: apply_store_op_keeps_rows)

section \<open>Claims about the prompt store\<close>

text \<open>
  C2. For every text that is not empty and not all whitespace, and every state of the
  store, \<open>save_new_prompt\<close> returns the trimmed text and the table afterwards is the table
  before followed by exactly one new row: its text is the trimmed text and its version is
  the maximum of the stored versions plus one (one, on an empty table). The rows stored
  before are all still there, unchanged and in place.
\<close>

theorem save_new_prompt_appends_next_version:
  assumes "new_prompt \<noteq> []" and "\<not> list_all is_space new_prompt"
  shows "fst (save_new_prompt now s new_prompt) = Inr (py_strip new_prompt) \<and>
         rows (snd (save_new_prompt now s new_prompt)) =
           rows s @ [\<lparr>version = (if rows s = [] then 0 else Max (version ` set (rows s))) + 1,
                       prompt_text = py_strip new_prompt,
                       created_at = now (clock_reads s)\<rparr>]"
proof (cases "rows s = []")
  case True
  then show ?thesis
    using assms by (simp add: save_new_prompt_ok rows_insert_row current_version_Nil)
next
  case False
  then show ?thesis
    using assms by (simp add: save_new_prompt_ok rows_insert_row current_version_Max)
qed

theorem save_new_prompt_appends_next_version_witness:
  "'' New prompt '' \<noteq> [] \<and> \<not> list_all is_space '' New prompt '' \<and>
   fst (save_new_prompt (\<lambda>n. ''2024-01-01T00:00:00'')
          \<lparr>rows = [\<lparr>version = 1, prompt_text = ''a'', created_at = ''t1''\<rparr>,
                    \<lparr>version = 2, prompt_text = ''b'', created_at = ''t2''\<rparr>,
                    \<lparr>version = 3, prompt_text = ''c'', created_at = ''t3''\<rparr>],
           clock_reads = 3, llm_calls = 0\<rparr> '' New prompt '') = Inr ''New prompt'' \<and>
   rows (snd (save_new_prompt (\<lambda>n. ''2024-01-01T00:00:00'')
          \<lparr>rows = [\<lparr>version = 1, prompt_text = ''a'', created_at = ''t1''\<rparr>,
                    \<lparr>version = 2, prompt_text = ''b'', created_at = ''t2''\<rparr>,
                    \<lparr>version = 3, prompt_text = ''c'', created_at = ''t3''\<rparr>],
           clock_reads = 3, llm_calls = 0\<rparr> '' New prompt '')) =
     [\<lparr>version = 1, prompt_text = ''a'', created_at = ''t1''\<rparr>,
      \<lparr>version = 2, prompt_text = ''b'', created_at = ''t2''\<rparr>,
      \<lparr>version = 3, prompt_text = ''c'', created_at = ''t3''\<rparr>,
      \<lparr>version = 4, prompt_text = ''New prompt'', created_at = ''2024-01-01T00:00:00''\<rparr>]"
  using save_new_prompt_appends_next_version
    [of "'' New prompt ''" "\<lambda>n. ''2024-01-01T00:00:00''"
        "\<lparr>rows = [\<lparr>version = 1, prompt_text = ''a'', created_at = ''t1''\<rparr>,
                  \<lparr>version = 2, prompt_text = ''b'', created_at = ''t2''\<rparr>,
                  \<lparr>version = 3, prompt_text = ''c'', created_at = ''t3''\<rparr>],
         clock_reads = 3, llm_calls = 0\<rparr>"]
  by (simp add: py_strip_def is_space_def)

text \<open>
  C3. \<open>save_new_prompt\<close> fails exactly when its text is empty or consists only of
  whitespace; the failure is the \<^verbatim>\<open>ValueError\<close> (the specification's InvalidInput), and
  the store is then exactly as it was before the call.
\<close>

theorem save_new_prompt_fails_iff_blank:
  "((\<exists>exn. fst (save_new_prompt now s t) = Inl exn) \<longleftrightarrow> (t = [] \<or> list_all is_space t)) \<and>
   (t = [] \<or> list_all is_space t \<longrightarrow>
      save_new_prompt now s t = (Inl (ValueError ''new_prompt must be a non-empty string''), s))"
proof (cases "list_all is_space t")
  case True
  then show ?thesis by (simp add: save_new_prompt_blank)
next
  case False
  moreover from False have "t \<noteq> []" by auto
  ultimately show ?thesis by (simp add: save_new_prompt_ok)
qed

theorem save_new_prompt_fails_iff_blank_witness:
  "list_all is_space ''  '' \<and>
   save_new_prompt (\<lambda>n. ''2024-01-01T00:00:00'')
     \<lparr>rows = [\<lparr>version = 1, prompt_text = ''a'', created_at = ''t1''\<rparr>,
               \<lparr>version = 2, prompt_text = ''b'', created_at = ''t2''\<rparr>,
               \<lparr>version = 3, prompt_text = ''c'', created_at = ''t3''\<rparr>],
      clock_reads = 3, llm_calls = 0\<rparr> ''  '' =
     (Inl (ValueError ''new_prompt must be a non-empty string''),
      \<lparr>rows = [\<lparr>version = 1, prompt_text = ''a'', created_at = ''t1''\<rparr>,
                \<lparr>version = 2, prompt_text = ''b'', created_at = ''t2''\<rparr>,
                \<lparr>version = 3, prompt_text = ''c'', created_at = ''t3''\<rparr>],
       clock_reads = 3, llm_calls = 0\<rparr>) \<and>
   (\<nexists>exn. fst (save_new_prompt (\<lambda>n. ''2024-01-01T00:00:00'')
     \<lparr>rows = [], clock_reads = 0, llm_calls = 0\<rparr> ''x'') = Inl exn)"
  using save_new_prompt_fails_iff_blank
    [of "\<lambda>n. ''2024-01-01T00:00:00''"
        "\<lparr>rows = [\<lparr>version = 1, prompt_text = ''a'', created_at = ''t1''\<rparr>,
                  \<lparr>version = 2, prompt_text = ''b'', created_at = ''t2''\<rparr>,
                  \<lparr>version = 3, prompt_text = ''c'', created_at = ''t3''\<rparr>],
         clock_reads = 3, llm_calls = 0\<rparr>" "''  ''"]
    save_new_prompt_fails_iff_blank
    [of "\<lambda>n. ''2024-01-01T00:00:00''" "\<lparr>rows = [], clock_reads = 0, llm_calls = 0\<rparr>" "''x''"]
  by (simp add: is_space_def)

text \<open>
  C4. On a store with no row, \<open>get_latest_prompt\<close> returns the default prompt and leaves
  exactly one row, of version 1 and with the default prompt as its text; a second call
  returns the same text and leaves the table as it is. From any state, the table is not
  empty after a call of \<open>get_latest_prompt\<close> and stays so whatever operations of the store
  follow, and \<open>get_latest_prompt\<close> never returns the empty string.
\<close>

theorem get_latest_prompt_seeds_once:
  "(rows s = [] \<longrightarrow>
      fst (get_latest_prompt now s) = DEFAULT_BASE_PROMPT \<and>
      rows (snd (get_latest_prompt now s)) =
        [\<lparr>version = 1, prompt_text = DEFAULT_BASE_PROMPT, created_at = now (clock_reads s)\<rparr>] \<and>
      get_latest_prompt now (snd (get_latest_prompt now s)) =
        (DEFAULT_BASE_PROMPT, snd (get_latest_prompt now s))) \<and>
   rows (apply_store_ops now ops (snd (get_latest_prompt now s))) \<noteq> [] \<and>
   fst (get_latest_prompt now s') \<noteq> []"
proof (intro conjI impI)
  assume e: "rows s = []"
  let ?s1 = "insert_row now 1 DEFAULT_BASE_PROMPT s"
  have g: "get_latest_prompt now s = (DEFAULT_BASE_PROMPT, ?s1)"
    using e by (rule get_latest_prompt_empty)
  show "fst (get_latest_prompt now s) = DEFAULT_BASE_PROMPT" by (simp add: g)
  show "rows (snd (get_latest_prompt now s)) =
          [\<lparr>version = 1, prompt_text = DEFAULT_BASE_PROMPT, created_at = now (clock_reads s)\<rparr>]"
    using e by (simp add: g rows_insert_row)
  have "select_latest ([] @ [\<lparr>version = 1, prompt_text = DEFAULT_BASE_PROMPT,
                              created_at = now (clock_reads s)\<rparr>])
          = Some \<lparr>version = 1, prompt_text = DEFAULT_BASE_PROMPT, created_at = now (clock_reads s)\<rparr>"
    by (rule select_latest_snoc) simp
  then have "fetch_latest_text (rows ?s1) = Some DEFAULT_BASE_PROMPT"
    using e by (simp add: fetch_latest_text_def rows_insert_row default_not_empty)
  then have "get_latest_prompt now ?s1 = (DEFAULT_BASE_PROMPT, ?s1)"
    by (rule get_latest_prompt_fetched)
  then show "get_latest_prompt now (snd (get_latest_prompt now s)) =
               (DEFAULT_BASE_PROMPT, snd (get_latest_prompt now s))"
    by (simp add: g)
next
  show "rows (apply_store_ops now ops (snd (get_latest_prompt now s))) \<noteq> []"
    by (intro apply_store_ops_keep_rows get_latest_prompt_rows_not_empty)
  show "fst (get_latest_prompt now s') \<noteq> []"
    by (rule get_latest_prompt_text_not_empty)
qed

theorem get_latest_prompt_seeds_once_witness:
  "rows \<lparr>rows = [], clock_reads = 0, llm_calls = 0\<rparr> = [] \<and>
   get_latest_prompt (\<lambda>n. ''2024-01-01T00:00:00'') \<lparr>rows = [], clock_reads = 0, llm_calls = 0\<rparr> =
     (DEFAULT_BASE_PROMPT,
      \<lparr>rows = [\<lparr>version = 1, prompt_text = DEFAULT_BASE_PROMPT,
                 created_at = ''2024-01-01T00:00:00''\<rparr>],
       clock_reads = 1, llm_calls = 0\<rparr>) \<and>
   get_latest_prompt (\<lambda>n. ''2024-01-01T00:00:00'')
     \<lparr>rows = [\<lparr>version = 1, prompt_text = DEFAULT_BASE_PROMPT,
                created_at = ''2024-01-01T00:00:00''\<rparr>],
      clock_reads = 1, llm_calls = 0\<rparr> =
     (DEFAULT_BASE_PROMPT,
      \<lparr>rows = [\<lparr>version = 1, prompt_text = DEFAULT_BASE_PROMPT,
                 created_at = ''2024-01-01T00:00:00''\<rparr>],
       clock_reads = 1, llm_calls = 0\<rparr>)"
proof -
  let ?s = "\<lparr>rows = [], clock_reads = 0, llm_calls = 0\<rparr>"
  let ?now = "\<lambda>n::nat. ''2024-01-01T00:00:00''"
  have s1: "snd (get_latest_prompt ?now ?s) =
     \<lparr>rows = [\<lparr>version = 1, prompt_text = DEFAULT_BASE_PROMPT,
                created_at = ''2024-01-01T00:00:00''\<rparr>],
      clock_reads = 1, llm_calls = 0\<rparr>"
    by (simp add: get_latest_prompt_def fetch_latest_text_def select_latest_def
          order_by_version_desc_def initialize_prompt_if_empty_def insert_row_def
          default_not_empty)
  show ?thesis
    using get_latest_prompt_seeds_once [of ?s ?now "[]" ?s] s1
    by (simp add: prod_eq_iff)
qed

section \<open>Facts about the dataset builder\<close>

lemma collect_run_eq:
  "collect_run d ms i seq =
     (i + length (takeWhile (\<lambda>m. dict_get m ''direction'' = JStr d) (drop i ms)),
      seq @ takeWhile (\<lambda>m. dict_get m ''direction'' = JStr d) (drop i ms))"
proof (induction d ms i seq rule: collect_run.induct)
  case (1 d ms i seq)
  let ?P = "\<lambda>m. dict_get m ''direction'' = JStr d"
  show ?case
  proof (cases "i < length ms \<and> ?P (ms ! i)")
    case True
    then have d: "drop i ms = ms ! i # drop (Suc i) ms"
      by (simp add: Cons_nth_drop_Suc)
    have "collect_run d ms i seq = collect_run d ms (Suc i) (seq @ [ms ! i])"
      using True by (subst collect_run.simps) simp
    also have "\<dots> = (Suc i + length (takeWhile ?P (drop (Suc i) ms)),
                     (seq @ [ms ! i]) @ takeWhile ?P (drop (Suc i) ms))"
      using True by (intro "1.IH") simp
    finally show ?thesis using True by (simp add: d)
  next
    case False
    have t: "takeWhile ?P (drop i ms) = []"
    proof (cases "i < length ms")
      case True
      then have "drop i ms = ms ! i # drop (Suc i) ms" by (simp add: Cons_nth_drop_Suc)
      with False True show ?thesis by simp
    next
      case False
      then show ?thesis by simp
    qed
    have "collect_run d ms i seq = (i, seq)"
      using False by (subst collect_run.simps) auto
    then show ?thesis by (simp add: t)
  qed
qed

lemma collect_in_run:
  "collect_run ''in'' ms i [] =
     (i + length (takeWhile is_in (drop i ms)), takeWhile is_in (drop i ms))"
proof -
  have "is_in = (\<lambda>m. dict_get m ''direction'' = JStr ''in'')"
    by (rule ext) (simp add: is_in_def)
  then show ?thesis by (simp add: collect_run_eq)
qed

lemma collect_out_run:
  "collect_run ''out'' ms i [] =
     (i + length (takeWhile is_out (drop i ms)), takeWhile is_out (drop i ms))"
proof -
  have "is_out = (\<lambda>m. dict_get m ''direction'' = JStr ''out'')"
    by (rule ext) (simp add: is_out_def)
  then show ?thesis by (simp add: collect_run_eq)
qed

lemma is_out_not_in: "is_out m \<Longrightarrow> \<not> is_in m"
  by (simp add: is_in_def is_out_def)

lemma takeWhile_segment:
  assumes "p < length (takeWhile P (drop i ms))"
  shows "P (ms ! (i + p))"
proof -
  have "takeWhile P (drop i ms) ! p \<in> set (takeWhile P (drop i ms))"
    using assms by (rule nth_mem)
  then have "P (takeWhile P (drop i ms) ! p)" by (rule set_takeWhileD [THEN conjunct2])
  moreover have "takeWhile P (drop i ms) ! p = drop i ms ! p"
    using assms by (rule takeWhile_nth)
  moreover have "p < length (drop i ms)"
    using assms length_takeWhile_le [of P "drop i ms"] by (rule less_le_trans)
  ultimately show ?thesis by simp
qed

lemma take_takeWhile_drop:
  "take i ms @ takeWhile P (drop i ms) = take (i + length (takeWhile P (drop i ms))) ms"
proof -
  have "takeWhile P (drop i ms) = take (length (takeWhile P (drop i ms))) (drop i ms)"
    by (rule takeWhile_eq_take)
  then show ?thesis by (metis take_add)
qed

lemma drop_takeWhile_drop:
  "drop (i + length (takeWhile P (drop i ms))) ms = dropWhile P (drop i ms)"
  by (metis add.commute drop_drop dropWhile_eq_drop)

lemma filter_upt_none:
  "\<forall>p. i \<le> p \<and> p < j \<longrightarrow> \<not> Q p \<Longrightarrow> filter Q [i..<j] = []"
  by (simp add: filter_empty_conv)

lemma scan_messages_eq:
  assumes "i < length ms \<Longrightarrow> is_in (ms ! i) \<Longrightarrow> i = 0 \<or> \<not> is_in (ms ! (i - 1))"
  shows "scan_messages cid scen ms i (take i ms) acc =
           acc @ map (sample_at cid scen ms)
                   (filter (\<lambda>p. is_in (ms ! p) \<and> (p = 0 \<or> \<not> is_in (ms ! (p - 1))))
                      [i..<length ms])"
  using assms
proof (induction "length ms - i" arbitrary: i acc rule: less_induct)
  case less
  let ?n = "length ms"
  let ?S = "\<lambda>p. is_in (ms ! p) \<and> (p = 0 \<or> \<not> is_in (ms ! (p - 1)))"
  show ?case
  proof (cases "i < ?n")
    case False
    then have "scan_messages cid scen ms i (take i ms) acc = acc"
      by (subst scan_messages.simps) simp
    with False show ?thesis by simp
  next
    case lt: True
    then have upt: "[i..<?n] = i # [Suc i..<?n]" by (rule upt_conv_Cons)
    show ?thesis
    proof (cases "is_in (ms ! i)")
      case False
      then have d: "dict_get (ms ! i) ''direction'' \<noteq> JStr ''in''" by (simp add: is_in_def)
      have "scan_messages cid scen ms i (take i ms) acc =
              scan_messages cid scen ms (Suc i) (take i ms @ [ms ! i]) acc"
        using lt d by (subst scan_messages.simps) simp
      also have "take i ms @ [ms ! i] = take (Suc i) ms"
        using lt by (simp add: take_Suc_conv_app_nth)
      also have "scan_messages cid scen ms (Suc i) (take (Suc i) ms) acc =
                   acc @ map (sample_at cid scen ms) (filter ?S [Suc i..<?n])"
        using lt False by (intro less.hyps) simp_all
      finally show ?thesis using False by (simp add: upt)
    next
      case True
      then have d: "dict_get (ms ! i) ''direction'' = JStr ''in''" by (simp add: is_in_def)
      define k where "k = length (takeWhile is_in (drop i ms))"
      define i1 where "i1 = i + k"
      define j where "j = length (takeWhile is_out (drop i1 ms))"
      define i2 where "i2 = i1 + j"
      have di: "drop i ms = ms ! i # drop (Suc i) ms"
        using lt by (simp add: Cons_nth_drop_Suc)
      have k: "0 < k" unfolding k_def using True by (simp add: di)
      have kn: "i1 \<le> ?n"
        using length_takeWhile_le [of is_in "drop i ms"] lt by (simp add: i1_def k_def)
      have jn: "i2 \<le> ?n"
        using length_takeWhile_le [of is_out "drop i1 ms"] kn by (simp add: i2_def j_def)
      have ins: "is_in (ms ! p)" if "i \<le> p" "p < i1" for p
      proof -
        have "p - i < length (takeWhile is_in (drop i ms))"
          using that by (simp add: i1_def k_def)
        then have "is_in (ms ! (i + (p - i)))" by (rule takeWhile_segment)
        with that show ?thesis by simp
      qed
      have outs: "is_out (ms ! p)" if "i1 \<le> p" "p < i2" for p
      proof -
        have "p - i1 < length (takeWhile is_out (drop i1 ms))"
          using that by (simp add: i2_def j_def)
        then have "is_out (ms ! (i1 + (p - i1)))" by (rule takeWhile_segment)
        with that show ?thesis by simp
      qed
      have r1: "collect_run ''in'' ms i [] = (i1, takeWhile is_in (drop i ms))"
        by (simp add: collect_in_run i1_def k_def)
      have r2: "collect_run ''out'' ms i1 [] = (i2, takeWhile is_out (drop i1 ms))"
        by (simp add: collect_out_run i2_def j_def)
      have dr: "drop i1 ms = dropWhile is_in (drop i ms)"
        unfolding i1_def k_def by (rule drop_takeWhile_drop)
      have hist: "take i ms @ takeWhile is_in (drop i ms) @ takeWhile is_out (drop i1 ms)
                    = take i2 ms"
      proof -
        have "take i ms @ takeWhile is_in (drop i ms) = take i1 ms"
          unfolding i1_def k_def by (rule take_takeWhile_drop)
        moreover have "take i1 ms @ takeWhile is_out (drop i1 ms) = take i2 ms"
          unfolding i2_def j_def by (rule take_takeWhile_drop)
        ultimately show ?thesis by (metis append.assoc)
      qed
      have smp: "\<lparr>contact_id = cid, scenario = scen,
                  client_sequence = texts_of (takeWhile is_in (drop i ms)),
                  consultant_reply = texts_of (takeWhile is_out (drop i1 ms)),
                  chat_history = take i ms\<rparr> = sample_at cid scen ms i"
        by (simp add: sample_at_def dr)
      have step: "scan_messages cid scen ms i (take i ms) acc =
              scan_messages cid scen ms i2 (take i2 ms) (acc @ [sample_at cid scen ms i])"
        using lt d by (subst scan_messages.simps) (simp add: r1 r2 Let_def hist smp)
      have bound: "i2 = 0 \<or> \<not> is_in (ms ! (i2 - 1))" if "i2 < ?n" "is_in (ms ! i2)"
      proof (cases "j = 0")
        case True
        then have "i2 = i1" by (simp add: i2_def)
        moreover have "drop i1 ms \<noteq> []" using that \<open>i2 = i1\<close> by simp
        then have "\<not> is_in (hd (dropWhile is_in (drop i ms)))"
          unfolding dr by (rule hd_dropWhile)
        then have "\<not> is_in (ms ! i1)"
          using that \<open>i2 = i1\<close> by (simp add: dr [symmetric] hd_drop_conv_nth)
        ultimately show ?thesis using that by simp
      next
        case False
        then have "i1 \<le> i2 - 1" "i2 - 1 < i2" by (simp_all add: i2_def)
        then have "is_out (ms ! (i2 - 1))" by (rule outs)
        then show ?thesis by (simp add: is_out_not_in)
      qed
      have i2gt: "i < i2" using k by (simp add: i2_def i1_def)
      have rest: "scan_messages cid scen ms i2 (take i2 ms) (acc @ [sample_at cid scen ms i]) =
                    (acc @ [sample_at cid scen ms i]) @
                      map (sample_at cid scen ms) (filter ?S [i2..<?n])"
        using lt i2gt bound by (intro less.hyps) auto
      have none: "filter ?S [Suc i..<i2] = []"
      proof (rule filter_upt_none, intro allI impI)
        fix p assume p: "Suc i \<le> p \<and> p < i2"
        show "\<not> ?S p"
        proof (cases "p < i1")
          case True
          with p have "is_in (ms ! (p - 1))" by (intro ins) auto
          with p show ?thesis by simp
        next
          case False
          with p have "is_out (ms ! p)" by (intro outs) simp_all
          then show ?thesis by (simp add: is_out_not_in)
        qed
      qed
      have "[Suc i..<?n] = [Suc i..<i2] @ [i2..<?n]"
        using i2gt jn by (metis Suc_leI upt_add_eq_append le_add_diff_inverse)
      then have "filter ?S [i..<?n] = i # filter ?S [i2..<?n]"
        using True less.prems lt none by (simp add: upt)
      then show ?thesis by (simp add: step rest)
    qed
  qed
qed

lemma scan_messages_spec:
  "scan_messages cid scen ms 0 [] acc = acc @ spec_samples cid scen ms"
  using scan_messages_eq [of 0 ms cid scen acc]
  by (simp add: spec_samples_def run_starts_def)

lemma fold_scan_messages:
  "fold (\<lambda>convo samples.
           scan_messages
             (case conv_contact_id convo of None \<Rightarrow> JStr [] | Some c \<Rightarrow> c)
             (case conv_scenario convo of None \<Rightarrow> JStr [] | Some c \<Rightarrow> c)
             (case conv_messages convo of None \<Rightarrow> [] | Some ms \<Rightarrow> ms)
             0 [] samples) cs acc = acc @ spec_build_samples cs"
  by (induction cs arbitrary: acc) (simp_all add: spec_build_samples_def scan_messages_spec)

lemma build_samples_spec: "build_samples cs = spec_build_samples cs"
  by (simp add: build_samples_def fold_scan_messages)

section \<open>Claims about the dataset builder\<close>

lemma spec_samples_in_in_out_in_out_out:
  "spec_samples cid scen
     [message ''in'' t1, message ''in'' t2, message ''out'' t3,
      message ''in'' t4, message ''out'' t5, message ''out'' t6] =
     [\<lparr>contact_id = cid, scenario = scen,
       client_sequence = [JStr t1, JStr t2], consultant_reply = [JStr t3],
       chat_history = []\<rparr>,
      \<lparr>contact_id = cid, scenario = scen,
       client_sequence = [JStr t4], consultant_reply = [JStr t5, JStr t6],
       chat_history = [message ''in'' t1, message ''in'' t2, message ''out'' t3]\<rparr>]"
  by (simp add: spec_samples_def run_starts_def sample_at_def is_in_def is_out_def
        message_def dict_get_def dict_get_default_def texts_of_def)

lemma spec_samples_out_in_out:
  "spec_samples cid scen [message ''out'' t1, message ''in'' t2, message ''out'' t3] =
     [\<lparr>contact_id = cid, scenario = scen,
       client_sequence = [JStr t2], consultant_reply = [JStr t3],
       chat_history = [message ''out'' t1]\<rparr>]"
  by (simp add: spec_samples_def run_starts_def sample_at_def is_in_def is_out_def
        message_def dict_get_def dict_get_default_def texts_of_def)

text \<open>
  C1. \<open>build_samples\<close> returns, conversation after conversation, exactly one sample for
  each position at which a run of \<^verbatim>\<open>"in"\<close> messages starts: its client sequence is the
  texts of the longest stretch of \<^verbatim>\<open>"in"\<close> messages from there, its consultant reply the
  texts of the longest stretch of \<^verbatim>\<open>"out"\<close> messages right after that stretch (none if
  there is no such message), and its history all the messages before the position, in
  order. A message that is not tagged \<^verbatim>\<open>"in"\<close> starts no run, so it gives no sample and
  only shows up in later histories. The conversation in, in, out, in, out, out gives the
  two samples of the specification, and out, in, out gives one sample whose history holds
  the leading message.
\<close>

theorem build_samples_one_sample_per_client_run:
  "build_samples conversations = spec_build_samples conversations \<and>
   build_samples
     [\<lparr>conv_contact_id = Some cid, conv_scenario = Some scen,
       conv_messages = Some [message ''in'' t1, message ''in'' t2, message ''out'' t3,
                             message ''in'' t4, message ''out'' t5, message ''out'' t6]\<rparr>] =
     [\<lparr>contact_id = cid, scenario = scen,
       client_sequence = [JStr t1, JStr t2], consultant_reply = [JStr t3],
       chat_history = []\<rparr>,
      \<lparr>contact_id = cid, scenario = scen,
       client_sequence = [JStr t4], consultant_reply = [JStr t5, JStr t6],
       chat_history = [message ''in'' t1, message ''in'' t2, message ''out'' t3]\<rparr>] \<and>
   build_samples
     [\<lparr>conv_contact_id = Some cid, conv_scenario = Some scen,
       conv_messages = Some [message ''out'' t1, message ''in'' t2, message ''out'' t3]\<rparr>] =
     [\<lparr>contact_id = cid, scenario = scen,
       client_sequence = [JStr t2], consultant_reply = [JStr t3],
       chat_history = [message ''out'' t1]\<rparr>]"
proof (intro conjI)
  show "build_samples conversations = spec_build_samples conversations"
    by (rule build_samples_spec)
qed (simp_all only: build_samples_spec spec_build_samples_def list.map concat.simps
       conversation.simps option.case append_Nil2
       spec_samples_in_in_out_in_out_out spec_samples_out_in_out)

theorem build_samples_one_sample_per_client_run_witness:
  "build_samples
     [\<lparr>conv_contact_id = Some (JStr ''c1''), conv_scenario = None,
       conv_messages = Some [message ''in'' ''hi'', message ''in'' ''anyone?'',
                             message ''in'' ''hello'']\<rparr>,
      \<lparr>conv_contact_id = Some (JStr ''c2''), conv_scenario = Some (JStr ''dtv''),
       conv_messages = Some [message ''out'' ''welcome'', message ''in'' ''price?'',
                             [(''direction'', JStr ''note''), (''text'', JStr ''internal'')],
                             message ''out'' ''10k'']\<rparr>] =
     [\<lparr>contact_id = JStr ''c1'', scenario = JStr [],
       client_sequence = [JStr ''hi'', JStr ''anyone?'', JStr ''hello''],
       consultant_reply = [], chat_history = []\<rparr>,
      \<lparr>contact_id = JStr ''c2'', scenario = JStr ''dtv'',
       client_sequence = [JStr ''price?''], consultant_reply = [],
       chat_history = [message ''out'' ''welcome'']\<rparr>]"
proof -
  let ?cs = "[\<lparr>conv_contact_id = Some (JStr ''c1''), conv_scenario = None,
       conv_messages = Some [message ''in'' ''hi'', message ''in'' ''anyone?'',
                             message ''in'' ''hello'']\<rparr>,
      \<lparr>conv_contact_id = Some (JStr ''c2''), conv_scenario = Some (JStr ''dtv''),
       conv_messages = Some [message ''out'' ''welcome'', message ''in'' ''price?'',
                             [(''direction'', JStr ''note''), (''text'', JStr ''internal'')],
                             message ''out'' ''10k'']\<rparr>]"
  have "build_samples ?cs = spec_build_samples ?cs"
    using build_samples_one_sample_per_client_run [of ?cs] by (rule conjunct1)
  then show ?thesis
    by (simp add: spec_build_samples_def spec_samples_def run_starts_def sample_at_def
          is_in_def is_out_def message_def dict_get_def dict_get_default_def texts_of_def)
qed

section \<open>Claims about the normalization of the chat history\<close>

lemma those_map_as_dict: "those (map as_dict (map JObj raw)) = Some raw"
  by (induction raw) simp_all

lemma normalize_entries_dicts:
  "normalize_entries (map JObj raw) = Inr (normalize_chat_history raw)"
  unfolding normalize_entries_def those_map_as_dict by simp

text \<open>
  On a list whose entries are all dicts the normalization is what the specification says:
  the entries whose \<^verbatim>\<open>role\<close> is the string \<^verbatim>\<open>"client"\<close> or \<^verbatim>\<open>"consultant"\<close>, in their
  order, each as the pair of its role and its message, the message being the empty string
  where the entry has none; every other entry is left out and nothing is raised. The list
  with roles client, bot, consultant of the specification gives its first and third entry.
\<close>

lemma normalize_chat_history_on_dicts:
  "normalize_chat_history raw =
     map (\<lambda>m. [(''role'', dict_get m ''role''),
                (''message'', dict_get_default m ''message'' (JStr ''''))])
       (filter (\<lambda>m. dict_get m ''role'' \<in> {JStr ''client'', JStr ''consultant''}) raw) \<and>
   normalize_entries (map JObj raw) = Inr (normalize_chat_history raw) \<and>
   normalize_chat_history
     [[(''role'', JStr ''client''), (''message'', JStr ''a'')],
      [(''role'', JStr ''bot''), (''message'', JStr ''b'')],
      [(''role'', JStr ''consultant''), (''message'', JStr ''c'')]] =
     [[(''role'', JStr ''client''), (''message'', JStr ''a'')],
      [(''role'', JStr ''consultant''), (''message'', JStr ''c'')]]"
proof (intro conjI)
  show "normalize_chat_history raw =
     map (\<lambda>m. [(''role'', dict_get m ''role''),
                (''message'', dict_get_default m ''message'' (JStr ''''))])
       (filter (\<lambda>m. dict_get m ''role'' \<in> {JStr ''client'', JStr ''consultant''}) raw)"
    by (induction raw) (simp_all add: Let_def)
  show "normalize_entries (map JObj raw) = Inr (normalize_chat_history raw)"
    by (rule normalize_entries_dicts)
qed (simp add: dict_get_def dict_get_default_def)

text \<open>
  C6 says that for every raw chat-history list the normalization returns the entries with
  role \<^verbatim>\<open>"client"\<close> or \<^verbatim>\<open>"consultant"\<close> and silently drops every other entry, never an
  error. The handlers only check that \<^verbatim>\<open>chatHistory\<close> is a list. Here the list is
  \<^verbatim>\<open>[{"role": "client", "message": "a"}, "oops"]\<close>: its second entry has no role
  \<^verbatim>\<open>"client"\<close> or \<^verbatim>\<open>"consultant"\<close>, and instead of dropping it \<^verbatim>\<open>msg.get\<close> raises
  \<^verbatim>\<open>AttributeError\<close>; the handlers of \<^verbatim>\<open>/generate-reply\<close> and \<^verbatim>\<open>/improve-ai\<close> then
  return no JSON body, and no call is made to the completion service.
\<close>

theorem normalize_chat_history_non_dict_entry_raises:
  "normalize_entries
     [JObj [(''role'', JStr ''client''), (''message'', JStr ''a'')], JStr ''oops''] =
     Inl AttributeError \<and>
   generate_reply_endpoint
     \<lparr>api_key = Some ''sk-test'', json_loads = (\<lambda>t. JSONDecodeError), py_str = (\<lambda>v. ''''),
      llm = (\<lambda>n req. OpenAIError ''unreachable''),
      utcnow = (\<lambda>n. ''2024-01-01T00:00:00'')\<rparr>
     \<lparr>rows = [\<lparr>version = 3, prompt_text = ''Be nice.'', created_at = ''t3''\<rparr>],
      clock_reads = 3, llm_calls = 0\<rparr>
     (Some (JObj [(''clientSequence'', JStr ''hi''),
                  (''chatHistory'',
                   JArr [JObj [(''role'', JStr ''client''), (''message'', JStr ''a'')],
                         JStr ''oops''])])) =
     (Unhandled AttributeError,
      \<lparr>rows = [\<lparr>version = 3, prompt_text = ''Be nice.'', created_at = ''t3''\<rparr>],
       clock_reads = 3, llm_calls = 0\<rparr>) \<and>
   improve_ai_endpoint
     \<lparr>api_key = Some ''sk-test'', json_loads = (\<lambda>t. JSONDecodeError), py_str = (\<lambda>v. ''''),
      llm = (\<lambda>n req. OpenAIError ''unreachable''),
      utcnow = (\<lambda>n. ''2024-01-01T00:00:00'')\<rparr>
     \<lparr>rows = [\<lparr>version = 3, prompt_text = ''Be nice.'', created_at = ''t3''\<rparr>],
      clock_reads = 3, llm_calls = 0\<rparr>
     (Some (JObj [(''clientSequence'', JStr ''hi''),
                  (''consultantReply'', JStr ''hello''),
                  (''chatHistory'',
                   JArr [JObj [(''role'', JStr ''client''), (''message'', JStr ''a'')],
                         JStr ''oops''])])) =
     (Unhandled AttributeError,
      \<lparr>rows = [\<lparr>version = 3, prompt_text = ''Be nice.'', created_at = ''t3''\<rparr>],
       clock_reads = 3, llm_calls = 0\<rparr>)"
  by (simp add: normalize_entries_def generate_reply_endpoint_def improve_ai_endpoint_def
        get_json_or_empty_def dict_get_def dict_get_default_def is_nonblank_str_def
        py_strip_def is_space_def Let_def)

section \<open>Facts about the AI client and the handlers\<close>

lemma get_json_or_empty_object: "get_json_or_empty (Some (JObj data)) = JObj data"
  by (cases data) (simp_all add: get_json_or_empty_def)

lemma generate_chat_reply_answer:
  assumes "has_api_key e"
    and "llm e (llm_calls s)
           \<lparr>system_content = fst (get_latest_prompt (utcnow e) s), user_payload = payload,
            temperature_tenths = 4\<rparr> = Completion content"
  shows "fst (generate_chat_reply e s payload) =
           (case json_loads e (content_or_empty_object content) of
              JSONDecodeError \<Rightarrow>
                Inl (AIClientError (InvalidJson (content_or_empty_object content)))
            | LoadsValueError msg \<Rightarrow> Inl (ValueError msg)
            | LoadsRecursionError \<Rightarrow> Inl RecursionError
            | Loaded parsed \<Rightarrow> extract_field ''reply'' MissingReply parsed)"
proof -
  obtain bp s1 where g: "get_latest_prompt (utcnow e) s = (bp, s1)" by fastforce
  have c: "llm_calls s1 = llm_calls s"
    using get_latest_prompt_llm_calls [of "utcnow e" s] g by simp
  show ?thesis
    using assms by (simp add: generate_chat_reply_def g c Let_def split: loads_result.splits)
qed

lemma generate_reply_endpoint_valid:
  assumes "is_nonblank_str (dict_get data ''clientSequence'')"
    and "dict_get_default data ''chatHistory'' (JArr []) = JArr (map JObj raw)"
  shows "fst (generate_reply_endpoint e s (Some (JObj data))) =
           (case fst (generate_chat_reply e s
                        (JObj [(''clientSequence'', dict_get data ''clientSequence''),
                               (''chatHistory'', JArr (map JObj (normalize_chat_history raw)))])) of
              Inl exn \<Rightarrow> ai_failure_response e exn
            | Inr reply \<Rightarrow> Response 200 (JObj [(''aiReply'', JStr reply)]))"
  using assms
  by (simp add: generate_reply_endpoint_def get_json_or_empty_object Let_def
        normalize_entries_dicts split: prod.splits sum.splits)

lemma extract_field_string:
  "dict_get d field = JStr v \<Longrightarrow> extract_field field missing (JObj d) = Inr v"
  by (simp add: extract_field_def)

lemma extract_field_missing:
  "\<nexists>v. dict_get d field = JStr v \<Longrightarrow>
     extract_field field missing (JObj d) = Inl (AIClientError (missing (JObj d)))"
  by (cases "dict_get d field") (simp_all add: extract_field_def)

text \<open>
  What \<open>generate_chat_reply\<close> does with a completion whose content is no JSON, or is the
  JSON text of an object: a missing content is read as the text \<^verbatim>\<open>{}\<close>; a content
  that is no JSON fails with the \<^verbatim>\<open>AIClientError\<close> whose message ends with the raw
  content; an object whose \<^verbatim>\<open>reply\<close> is missing or no string fails with an
  \<^verbatim>\<open>AIClientError\<close>; otherwise the result is the string under \<^verbatim>\<open>reply\<close>.
\<close>

lemma generate_chat_reply_on_object_content:
  assumes "has_api_key e"
    and "llm e (llm_calls s)
           \<lparr>system_content = fst (get_latest_prompt (utcnow e) s), user_payload = payload,
            temperature_tenths = 4\<rparr> = Completion content"
  shows
   "(content = None \<longrightarrow> content_or_empty_object content = ''{}'') \<and>
    (json_loads e (content_or_empty_object content) = JSONDecodeError \<longrightarrow>
       fst (generate_chat_reply e s payload) =
         Inl (AIClientError (InvalidJson (content_or_empty_object content))) \<and>
       (\<exists>pre. ai_error_message (py_str e) (InvalidJson (content_or_empty_object content)) =
                pre @ content_or_empty_object content)) \<and>
    (\<forall>d. json_loads e (content_or_empty_object content) = Loaded (JObj d) \<longrightarrow>
       (\<nexists>r. dict_get d ''reply'' = JStr r) \<longrightarrow>
       fst (generate_chat_reply e s payload) = Inl (AIClientError (MissingReply (JObj d)))) \<and>
    (\<forall>d r. json_loads e (content_or_empty_object content) = Loaded (JObj d) \<longrightarrow>
       dict_get d ''reply'' = JStr r \<longrightarrow>
       fst (generate_chat_reply e s payload) = Inr r)"
  by (simp add: generate_chat_reply_answer [OF assms] content_or_empty_object_def
        extract_field_missing extract_field_string)

text \<open>
  The two exceptions of \<^verbatim>\<open>json.loads\<close> that are no \<^verbatim>\<open>JSONDecodeError\<close> pass through
  \<open>generate_chat_reply\<close> as they are.
\<close>

lemma generate_chat_reply_loads_raises:
  assumes "has_api_key e"
    and "llm e (llm_calls s)
           \<lparr>system_content = fst (get_latest_prompt (utcnow e) s), user_payload = payload,
            temperature_tenths = 4\<rparr> = Completion content"
  shows
   "(json_loads e (content_or_empty_object content) = LoadsValueError msg \<longrightarrow>
       fst (generate_chat_reply e s payload) = Inl (ValueError msg)) \<and>
    (json_loads e (content_or_empty_object content) = LoadsRecursionError \<longrightarrow>
       fst (generate_chat_reply e s payload) = Inl RecursionError)"
  by (simp add: generate_chat_reply_answer [OF assms])

text \<open>
  For a request with a non-blank \<^verbatim>\<open>clientSequence\<close> and a \<^verbatim>\<open>chatHistory\<close> that is a list
  of dicts, the handler of \<^verbatim>\<open>/generate-reply\<close> answers 200 with the reply as \<^verbatim>\<open>aiReply\<close>
  when the completion is the object with the string \<^verbatim>\<open>reply\<close>, and 500 with an error
  message when the object is empty or its \<^verbatim>\<open>reply\<close> is the number 5.
\<close>

lemma generate_reply_endpoint_on_object_content:
  assumes "has_api_key e"
    and "\<forall>req. llm e (llm_calls s) req = Completion content"
    and "is_nonblank_str (dict_get data ''clientSequence'')"
    and "dict_get_default data ''chatHistory'' (JArr []) = JArr (map JObj raw)"
  shows
   "(json_loads e (content_or_empty_object content) = Loaded (JObj [(''reply'', JStr x)]) \<longrightarrow>
       fst (generate_reply_endpoint e s (Some (JObj data))) =
         Response 200 (JObj [(''aiReply'', JStr x)])) \<and>
    (json_loads e (content_or_empty_object content) = Loaded (JObj []) \<or>
     json_loads e (content_or_empty_object content) = Loaded (JObj [(''reply'', JNum 5)]) \<longrightarrow>
       (\<exists>msg. fst (generate_reply_endpoint e s (Some (JObj data))) =
                Response 500 (error_body msg)))"
proof -
  have a: "llm e (llm_calls s)
             \<lparr>system_content = fst (get_latest_prompt (utcnow e) s), user_payload = p,
              temperature_tenths = 4\<rparr> = Completion content" for p
    using assms(2) by simp
  show ?thesis
    by (auto simp: generate_reply_endpoint_valid [OF assms(3,4)]
          generate_chat_reply_answer [OF assms(1) a]
          extract_field_def dict_get_def ai_failure_response_def)
qed

section \<open>Claims about the AI client\<close>

text \<open>
  C5 says that for every completion \<open>generate_chat_reply\<close> either returns the string under
  \<^verbatim>\<open>reply\<close> or fails with an \<^verbatim>\<open>AIClientError\<close> (the specification's InvalidResponse),
  the latter whenever the parsed JSON lacks a \<^verbatim>\<open>reply\<close> field. Here the content of the
  completion is the JSON text \<^verbatim>\<open>[]\<close>: it parses, the parsed value has no \<^verbatim>\<open>reply\<close>
  field, and \<^verbatim>\<open>parsed.get\<close> raises \<^verbatim>\<open>AttributeError\<close>, which is no \<^verbatim>\<open>AIClientError\<close>; the
  handler of \<^verbatim>\<open>/generate-reply\<close>, which only catches \<^verbatim>\<open>AIClientError\<close>, then returns
  no JSON body.
\<close>

theorem generate_chat_reply_non_object_raises_attribute_error:
  "json_loads
     \<lparr>api_key = Some ''sk-test'',
      json_loads = (\<lambda>t. if t = ''[]'' then Loaded (JArr []) else JSONDecodeError),
      py_str = (\<lambda>v. ''''),
      llm = (\<lambda>n req. Completion (Some ''[]'')),
      utcnow = (\<lambda>n. ''2024-01-01T00:00:00'')\<rparr> ''[]'' = Loaded (JArr []) \<and>
   fst (generate_chat_reply
     \<lparr>api_key = Some ''sk-test'',
      json_loads = (\<lambda>t. if t = ''[]'' then Loaded (JArr []) else JSONDecodeError),
      py_str = (\<lambda>v. ''''),
      llm = (\<lambda>n req. Completion (Some ''[]'')),
      utcnow = (\<lambda>n. ''2024-01-01T00:00:00'')\<rparr>
     \<lparr>rows = [], clock_reads = 0, llm_calls = 0\<rparr>
     (JObj [(''clientSequence'', JStr ''hi''), (''chatHistory'', JArr [])])) = Inl AttributeError \<and>
   fst (generate_reply_endpoint
     \<lparr>api_key = Some ''sk-test'',
      json_loads = (\<lambda>t. if t = ''[]'' then Loaded (JArr []) else JSONDecodeError),
      py_str = (\<lambda>v. ''''),
      llm = (\<lambda>n req. Completion (Some ''[]'')),
      utcnow = (\<lambda>n. ''2024-01-01T00:00:00'')\<rparr>
     \<lparr>rows = [], clock_reads = 0, llm_calls = 0\<rparr>
     (Some (JObj [(''clientSequence'', JStr ''hi'')]))) = Unhandled AttributeError"
proof -
  let ?e = "\<lparr>api_key = Some ''sk-test'',
      json_loads = (\<lambda>t. if t = ''[]'' then Loaded (JArr []) else JSONDecodeError),
      py_str = (\<lambda>v. ''''),
      llm = (\<lambda>n req. Completion (Some ''[]'')),
      utcnow = (\<lambda>n. ''2024-01-01T00:00:00'')\<rparr>"
  have k: "has_api_key ?e" by (simp add: has_api_key_def)
  have a: "llm ?e n req = Completion (Some ''[]'')" for n req by simp
  have g: "fst (generate_chat_reply ?e s p) = Inl AttributeError" for s p
    unfolding generate_chat_reply_answer [OF k a]
    by (simp add: content_or_empty_object_def extract_field_def)
  have n: "is_nonblank_str (dict_get [(''clientSequence'', JStr ''hi'')] ''clientSequence'')"
    by (simp add: is_nonblank_str_def dict_get_def py_strip_def is_space_def)
  have h: "dict_get_default [(''clientSequence'', JStr ''hi'')] ''chatHistory'' (JArr []) =
             JArr (map JObj [])"
    by (simp add: dict_get_default_def)
  show ?thesis
    unfolding generate_reply_endpoint_valid [OF n h] g
    by (simp add: ai_failure_response_def)
qed

section \<open>Facts about saving and reading back\<close>

lemma current_version_snoc:
  "current_version (rs @ [\<lparr>version = current_version rs + 1, prompt_text = t, created_at = c\<rparr>])
     = current_version rs + 1"
proof (cases "rs = []")
  case True
  then show ?thesis by (simp add: current_version_def)
next
  case False
  let ?r = "\<lparr>version = current_version rs + 1, prompt_text = t, created_at = c\<rparr>"
  have "Max (insert (version ?r) (version ` set rs)) = version ?r"
  proof (rule Max_insert2)
    show "finite (version ` set rs)" by simp
    fix b assume "b \<in> version ` set rs"
    then obtain x where "x \<in> set rs" "b = version x" by auto
    then have "b \<le> current_version rs" by (simp add: current_version_ge)
    then show "b \<le> version ?r" by simp
  qed
  moreover have "current_version (rs @ [?r]) = Max (version ` set (rs @ [?r]))"
    by (rule current_version_Max) simp
  ultimately show ?thesis by simp
qed

lemma get_latest_prompt_after_insert:
  assumes "t \<noteq> []"
  shows "get_latest_prompt now (insert_row now' (current_version (rows s) + 1) t s) =
           (t, insert_row now' (current_version (rows s) + 1) t s)"
proof (rule get_latest_prompt_fetched)
  show "fetch_latest_text (rows (insert_row now' (current_version (rows s) + 1) t s)) = Some t"
    using assms by (simp add: fetch_latest_text_def rows_insert_row select_latest_next)
qed

lemma save_new_prompt_Inr:
  assumes "save_new_prompt now s t = (Inr saved, s')"
  shows "\<not> list_all is_space t" and "saved = py_strip t"
    and "s' = insert_row now (current_version (rows s) + 1) (py_strip t) s"
proof -
  show a: "\<not> list_all is_space t"
    using assms by (auto simp: save_new_prompt_blank)
  show "saved = py_strip t" and "s' = insert_row now (current_version (rows s) + 1) (py_strip t) s"
    using assms a by (auto simp: save_new_prompt_ok)
qed

lemma py_strip_keeps_tail:
  assumes "q \<noteq> []" "\<not> is_space (hd q)" "\<not> is_space (last q)"
  shows "\<exists>p'. py_strip (p @ q) = p' @ q"
proof -
  have dq: "dropWhile is_space q = q" using assms by (simp add: dropWhile_id)
  have "\<exists>p'. dropWhile is_space (p @ q) = p' @ q"
  proof (cases "\<forall>x \<in> set p. is_space x")
    case True
    then have "dropWhile is_space (p @ q) = [] @ q" by (simp add: dq)
    then show ?thesis by blast
  next
    case False
    then obtain x where "x \<in> set p" "\<not> is_space x" by blast
    then have "dropWhile is_space (p @ q) = dropWhile is_space p @ q"
      by (rule dropWhile_append1)
    then show ?thesis by blast
  qed
  then obtain p' where p': "dropWhile is_space (p @ q) = p' @ q" by blast
  have "hd (rev q) = last q" using assms by (simp add: hd_rev)
  then have "dropWhile is_space (rev q @ rev p') = rev q @ rev p'"
    using assms by (intro dropWhile_id) simp_all
  then have "py_strip (p @ q) = p' @ q" by (simp add: py_strip_def p')
  then show ?thesis by blast
qed

lemma manual_update_stripped:
  assumes "py_strip instr \<noteq> []"
  shows "\<exists>pre. py_strip (a @ manual_separator @ py_strip instr) =
                 pre @ ''# Additional manual instructions'' @ ''\<newline>'' @ py_strip instr"
proof -
  let ?q = "''# Additional manual instructions'' @ ''\<newline>'' @ py_strip instr"
  have sep: "a @ manual_separator @ py_strip instr = (a @ ''\<newline>\<newline>'') @ ?q"
    by (simp add: manual_separator_def)
  have "\<not> is_space (hd ?q)" by (simp add: is_space_def)
  moreover have "\<not> is_space (last ?q)" using assms by (simp add: py_strip_ends)
  ultimately have "\<exists>p'. py_strip ((a @ ''\<newline>\<newline>'') @ ?q) = p' @ ?q"
    by (intro py_strip_keeps_tail) simp_all
  then show ?thesis unfolding sep .
qed

lemma manual_update_fixed:
  assumes "py_strip instr \<noteq> []" "py_strip cur \<noteq> []"
  shows "py_strip (py_strip cur @ manual_separator @ py_strip instr) =
           py_strip cur @ manual_separator @ py_strip instr"
proof (rule py_strip_fixed)
  show "py_strip cur @ manual_separator @ py_strip instr \<noteq> []" using assms by simp
  show "\<not> is_space (hd (py_strip cur @ manual_separator @ py_strip instr))"
    using assms by (simp add: py_strip_ends)
  show "\<not> is_space (last (py_strip cur @ manual_separator @ py_strip instr))"
    using assms by (simp add: py_strip_ends)
qed

lemma improve_ai_manually_invalid:
  assumes "get_json_or_empty body = JObj data"
    and "\<not> is_nonblank_str (dict_get data ''instructions'')"
  shows "improve_ai_manually_endpoint e s body =
           (Response 400 (error_body ''instructions must be a non-empty string''), s)"
  using assms
  by (cases "dict_get data ''instructions''")
     (simp_all add: improve_ai_manually_endpoint_def is_nonblank_str_def)

lemma improve_ai_manually_valid:
  assumes "get_json_or_empty body = JObj data"
    and "dict_get data ''instructions'' = JStr instr"
    and "py_strip instr \<noteq> []"
    and "get_latest_prompt (utcnow e) s = (cur, s1)"
  shows "improve_ai_manually_endpoint e s body =
           (Response 200
              (JObj [(''updatedPrompt'',
                      JStr (py_strip (py_strip cur @ manual_separator @ py_strip instr)))]),
            insert_row (utcnow e) (current_version (rows s1) + 1)
              (py_strip (py_strip cur @ manual_separator @ py_strip instr)) s1)"
proof -
  have "\<not> list_all is_space (py_strip instr)"
    using assms(3) by (simp add: blank_py_strip py_strip_Nil_iff)
  then have "\<not> list_all is_space (py_strip cur @ manual_separator @ py_strip instr)"
    by simp
  then have "save_new_prompt (utcnow e) s1 (py_strip cur @ manual_separator @ py_strip instr) =
          (Inr (py_strip (py_strip cur @ manual_separator @ py_strip instr)),
           insert_row (utcnow e) (current_version (rows s1) + 1)
             (py_strip (py_strip cur @ manual_separator @ py_strip instr)) s1)"
    by (rule save_new_prompt_ok)
  then show ?thesis
    using assms by (simp add: improve_ai_manually_endpoint_def)
qed

section \<open>Claims about the manual improvement\<close>

text \<open>
  C7, as stated, taken at two requests. On a store with no row, a request with the
  instructions \<^verbatim>\<open>"Be brief"\<close> leaves two rows, of versions 1 and 2: reading the current
  prompt seeds the table first, so the stored maximum, 0 before the call in the store's own
  query, is 2 after it. And a request whose body is the JSON list \<^verbatim>\<open>[1]\<close> has no
  \<^verbatim>\<open>instructions\<close> string, yet is not answered with status 400: \<^verbatim>\<open>data.get\<close> raises
  \<^verbatim>\<open>AttributeError\<close>.
\<close>

theorem improve_ai_manually_counterexample:
  "current_version (rows \<lparr>rows = [], clock_reads = 0, llm_calls = 0\<rparr>) = 0 \<and>
   map version
     (rows (snd (improve_ai_manually_endpoint
        \<lparr>api_key = None, json_loads = (\<lambda>t. JSONDecodeError), py_str = (\<lambda>v. ''''),
         llm = (\<lambda>n req. OpenAIError ''unreachable''),
         utcnow = (\<lambda>n. ''2024-01-01T00:00:00'')\<rparr>
        \<lparr>rows = [], clock_reads = 0, llm_calls = 0\<rparr>
        (Some (JObj [(''instructions'', JStr ''Be brief'')]))))) = [1, 2] \<and>
   current_version
     (rows (snd (improve_ai_manually_endpoint
        \<lparr>api_key = None, json_loads = (\<lambda>t. JSONDecodeError), py_str = (\<lambda>v. ''''),
         llm = (\<lambda>n req. OpenAIError ''unreachable''),
         utcnow = (\<lambda>n. ''2024-01-01T00:00:00'')\<rparr>
        \<lparr>rows = [], clock_reads = 0, llm_calls = 0\<rparr>
        (Some (JObj [(''instructions'', JStr ''Be brief'')]))))) = 2 \<and>
   improve_ai_manually_endpoint
        \<lparr>api_key = None, json_loads = (\<lambda>t. JSONDecodeError), py_str = (\<lambda>v. ''''),
         llm = (\<lambda>n req. OpenAIError ''unreachable''),
         utcnow = (\<lambda>n. ''2024-01-01T00:00:00'')\<rparr>
        \<lparr>rows = [], clock_reads = 0, llm_calls = 0\<rparr>
        (Some (JArr [JNum 1])) =
     (Unhandled AttributeError, \<lparr>rows = [], clock_reads = 0, llm_calls = 0\<rparr>)"
proof -
  let ?e = "\<lparr>api_key = None, json_loads = (\<lambda>t. JSONDecodeError), py_str = (\<lambda>v. ''''),
         llm = (\<lambda>n req. OpenAIError ''unreachable''),
         utcnow = (\<lambda>n. ''2024-01-01T00:00:00'')\<rparr>"
  let ?s = "\<lparr>rows = [], clock_reads = 0, llm_calls = 0\<rparr>"
  have g: "get_latest_prompt (utcnow ?e) ?s =
             (DEFAULT_BASE_PROMPT, insert_row (utcnow ?e) 1 DEFAULT_BASE_PROMPT ?s)"
    by (rule get_latest_prompt_empty) simp
  have b: "get_json_or_empty (Some (JObj [(''instructions'', JStr ''Be brief'')])) =
             JObj [(''instructions'', JStr ''Be brief'')]"
    by (rule get_json_or_empty_object)
  have i: "dict_get [(''instructions'', JStr ''Be brief'')] ''instructions'' = JStr ''Be brief''"
    by (simp add: dict_get_def)
  have n: "py_strip ''Be brief'' \<noteq> []" by (simp add: py_strip_def is_space_def)
  have v1: "current_version (rows (insert_row (utcnow ?e) 1 DEFAULT_BASE_PROMPT ?s)) = 1"
    by (simp add: rows_insert_row current_version_def)
  show ?thesis
    unfolding improve_ai_manually_valid [OF b i n g]
    by (simp add: rows_insert_row v1 current_version_def
          improve_ai_manually_endpoint_def get_json_or_empty_def)
qed

text \<open>
  C7, amended. Take a request whose body is a JSON object, or is missing, malformed or
  falsy and so read as the empty object. If \<^verbatim>\<open>instructions\<close> is not a string that is
  non-empty after trimming, the answer is status 400 with an error message and the state is
  unchanged. Otherwise no call is made to the completion service; the current prompt is
  read, which seeds the table when it has no row; exactly one row is then appended, its
  version being the stored maximum after that reading plus one, so that on a table that
  had rows the stored maximum grows by exactly one, and on a table without rows the
  versions afterwards are 1 and 2; the answer is status 200 and its \<^verbatim>\<open>updatedPrompt\<close> is
  the text of the appended row, namely the trimmed concatenation of the trimmed current
  prompt, the separator with the heading, and the trimmed instructions. That text equals
  the concatenation itself when the current prompt is not all whitespace, and it always
  ends with the heading line followed by the trimmed instructions.
\<close>

theorem improve_ai_manually_endpoint_appends_instructions:
  assumes "get_json_or_empty body = JObj data"
  shows
   "(\<not> is_nonblank_str (dict_get data ''instructions'') \<longrightarrow>
       (\<exists>msg. improve_ai_manually_endpoint e s body = (Response 400 (error_body msg), s))) \<and>
    (\<forall>instr cur s1 upd.
       dict_get data ''instructions'' = JStr instr \<longrightarrow> py_strip instr \<noteq> [] \<longrightarrow>
       get_latest_prompt (utcnow e) s = (cur, s1) \<longrightarrow>
       upd = py_strip (py_strip cur @ manual_separator @ py_strip instr) \<longrightarrow>
         fst (improve_ai_manually_endpoint e s body) =
           Response 200 (JObj [(''updatedPrompt'', JStr upd)]) \<and>
         rows (snd (improve_ai_manually_endpoint e s body)) =
           rows s1 @ [\<lparr>version = current_version (rows s1) + 1, prompt_text = upd,
                        created_at = utcnow e (clock_reads s1)\<rparr>] \<and>
         llm_calls (snd (improve_ai_manually_endpoint e s body)) = llm_calls s \<and>
         (rows s \<noteq> [] \<longrightarrow>
            s1 = s \<and>
            Max (version ` set (rows (snd (improve_ai_manually_endpoint e s body)))) =
              Max (version ` set (rows s)) + 1) \<and>
         (rows s = [] \<longrightarrow>
            map version (rows (snd (improve_ai_manually_endpoint e s body))) = [1, 2]) \<and>
         (py_strip cur \<noteq> [] \<longrightarrow> upd = py_strip cur @ manual_separator @ py_strip instr) \<and>
         (\<exists>pre. upd = pre @ ''# Additional manual instructions'' @ ''\<newline>'' @ py_strip instr))"
proof (intro conjI allI impI)
  assume "\<not> is_nonblank_str (dict_get data ''instructions'')"
  with assms show "\<exists>msg. improve_ai_manually_endpoint e s body = (Response 400 (error_body msg), s)"
    by (blast intro: improve_ai_manually_invalid)
next
  fix instr cur s1 upd
  assume i: "dict_get data ''instructions'' = JStr instr" and n: "py_strip instr \<noteq> []"
    and g: "get_latest_prompt (utcnow e) s = (cur, s1)"
    and u: "upd = py_strip (py_strip cur @ manual_separator @ py_strip instr)"
  note v = improve_ai_manually_valid [OF assms i n g, folded u]
  have l: "llm_calls s1 = llm_calls s"
    using get_latest_prompt_llm_calls [of "utcnow e" s] g by simp
  show "fst (improve_ai_manually_endpoint e s body) =
          Response 200 (JObj [(''updatedPrompt'', JStr upd)])"
    by (simp add: v)
  show r: "rows (snd (improve_ai_manually_endpoint e s body)) =
          rows s1 @ [\<lparr>version = current_version (rows s1) + 1, prompt_text = upd,
                       created_at = utcnow e (clock_reads s1)\<rparr>]"
    by (simp add: v rows_insert_row)
  show "llm_calls (snd (improve_ai_manually_endpoint e s body)) = llm_calls s"
    by (simp add: v llm_calls_insert_row l)
  show "upd = py_strip cur @ manual_separator @ py_strip instr" if "py_strip cur \<noteq> []"
    unfolding u using n that by (rule manual_update_fixed)
  show "\<exists>pre. upd = pre @ ''# Additional manual instructions'' @ ''\<newline>'' @ py_strip instr"
    unfolding u using n by (rule manual_update_stripped)
  show "map version (rows (snd (improve_ai_manually_endpoint e s body))) = [1, 2]"
    if "rows s = []"
  proof -
    have "s1 = insert_row (utcnow e) 1 DEFAULT_BASE_PROMPT s"
      using get_latest_prompt_empty [OF that, of "utcnow e"] g by simp
    then show ?thesis using that by (simp add: r rows_insert_row current_version_def)
  qed
  show "s1 = s" if "rows s \<noteq> []"
    using get_latest_prompt_nonempty_rows [OF that, of "utcnow e"] g by simp
  show "Max (version ` set (rows (snd (improve_ai_manually_endpoint e s body)))) =
          Max (version ` set (rows s)) + 1"
    if "rows s \<noteq> []"
  proof -
    have s: "s1 = s" using get_latest_prompt_nonempty_rows [OF that, of "utcnow e"] g by simp
    have c: "current_version (rows (snd (improve_ai_manually_endpoint e s body))) =
            current_version (rows s) + 1"
      unfolding r s by (rule current_version_snoc)
    have "rows (snd (improve_ai_manually_endpoint e s body)) \<noteq> []"
      by (simp add: r)
    then have a: "current_version (rows (snd (improve_ai_manually_endpoint e s body))) =
            Max (version ` set (rows (snd (improve_ai_manually_endpoint e s body))))"
      by (rule current_version_Max)
    have b: "current_version (rows s) = Max (version ` set (rows s))"
      using that by (rule current_version_Max)
    show ?thesis
      using c unfolding a b .
  qed
qed

theorem improve_ai_manually_endpoint_appends_instructions_witness:
  "get_json_or_empty (Some (JObj [(''instructions'', JStr '' Be brief '')])) =
     JObj [(''instructions'', JStr '' Be brief '')] \<and>
   fst (improve_ai_manually_endpoint
     \<lparr>api_key = None, json_loads = (\<lambda>t. JSONDecodeError), py_str = (\<lambda>v. ''''),
      llm = (\<lambda>n req. OpenAIError ''unreachable''),
      utcnow = (\<lambda>n. ''2024-01-01T00:00:00'')\<rparr>
     \<lparr>rows = [\<lparr>version = 3, prompt_text = ''Be kind.'', created_at = ''t3''\<rparr>],
      clock_reads = 3, llm_calls = 7\<rparr>
     (Some (JObj [(''instructions'', JStr '' Be brief '')]))) =
     Response 200
        (JObj [(''updatedPrompt'',
                JStr ''Be kind.\<newline>\<newline># Additional manual instructions\<newline>Be brief'')]) \<and>
   rows (snd (improve_ai_manually_endpoint
     \<lparr>api_key = None, json_loads = (\<lambda>t. JSONDecodeError), py_str = (\<lambda>v. ''''),
      llm = (\<lambda>n req. OpenAIError ''unreachable''),
      utcnow = (\<lambda>n. ''2024-01-01T00:00:00'')\<rparr>
     \<lparr>rows = [\<lparr>version = 3, prompt_text = ''Be kind.'', created_at = ''t3''\<rparr>],
      clock_reads = 3, llm_calls = 7\<rparr>
     (Some (JObj [(''instructions'', JStr '' Be brief '')])))) =
     [\<lparr>version = 3, prompt_text = ''Be kind.'', created_at = ''t3''\<rparr>,
      \<lparr>version = 4,
       prompt_text = ''Be kind.\<newline>\<newline># Additional manual instructions\<newline>Be brief'',
       created_at = ''2024-01-01T00:00:00''\<rparr>] \<and>
   (\<exists>msg. improve_ai_manually_endpoint
     \<lparr>api_key = None, json_loads = (\<lambda>t. JSONDecodeError), py_str = (\<lambda>v. ''''),
      llm = (\<lambda>n req. OpenAIError ''unreachable''),
      utcnow = (\<lambda>n. ''2024-01-01T00:00:00'')\<rparr>
     \<lparr>rows = [\<lparr>version = 3, prompt_text = ''Be kind.'', created_at = ''t3''\<rparr>],
      clock_reads = 3, llm_calls = 7\<rparr>
     (Some (JObj [(''instructions'', JStr ''  '')])) =
     (Response 400 (error_body msg),
      \<lparr>rows = [\<lparr>version = 3, prompt_text = ''Be kind.'', created_at = ''t3''\<rparr>],
       clock_reads = 3, llm_calls = 7\<rparr>))"
proof -
  let ?e = "\<lparr>api_key = None, json_loads = (\<lambda>t. JSONDecodeError), py_str = (\<lambda>v. ''''),
      llm = (\<lambda>n req. OpenAIError ''unreachable''),
      utcnow = (\<lambda>n. ''2024-01-01T00:00:00'')\<rparr>"
  let ?s = "\<lparr>rows = [\<lparr>version = 3, prompt_text = ''Be kind.'', created_at = ''t3''\<rparr>],
      clock_reads = 3, llm_calls = 7\<rparr>"
  let ?b = "Some (JObj [(''instructions'', JStr '' Be brief '')])"
  have b: "get_json_or_empty ?b = JObj [(''instructions'', JStr '' Be brief '')]"
    by (rule get_json_or_empty_object)
  have b2: "get_json_or_empty (Some (JObj [(''instructions'', JStr ''  '')])) =
             JObj [(''instructions'', JStr ''  '')]"
    by (rule get_json_or_empty_object)
  have i: "dict_get [(''instructions'', JStr '' Be brief '')] ''instructions'' = JStr '' Be brief ''"
    by (simp add: dict_get_def)
  have n: "py_strip '' Be brief '' = ''Be brief''" by (simp add: py_strip_def is_space_def)
  then have n': "py_strip '' Be brief '' \<noteq> []" by simp
  have g: "get_latest_prompt (utcnow ?e) ?s = (''Be kind.'', ?s)"
    by (simp add: get_latest_prompt_def fetch_latest_text_def select_latest_def
          order_by_version_desc_def)
  have k: "py_strip ''Be kind.'' = ''Be kind.''" by (simp add: py_strip_def is_space_def)
  then have k': "py_strip ''Be kind.'' \<noteq> []" by simp
  have nb: "\<not> is_nonblank_str (dict_get [(''instructions'', JStr ''  '')] ''instructions'')"
    by (simp add: is_nonblank_str_def dict_get_def py_strip_def is_space_def)
  note t = improve_ai_manually_endpoint_appends_instructions
             [OF b, of ?e ?s, THEN conjunct2, rule_format, OF i n' g refl]
  from t k' have u: "py_strip (py_strip ''Be kind.'' @ manual_separator @ py_strip '' Be brief '') =
                  py_strip ''Be kind.'' @ manual_separator @ py_strip '' Be brief ''"
    by blast
  have u': "py_strip (py_strip ''Be kind.'' @ manual_separator @ py_strip '' Be brief '') =
              ''Be kind.\<newline>\<newline># Additional manual instructions\<newline>Be brief''"
    using u by (simp add: n k manual_separator_def)
  have v: "current_version (rows ?s) = 3" by (simp add: current_version_def)
  have ok1: "fst (improve_ai_manually_endpoint ?e ?s ?b) =
     Response 200
        (JObj [(''updatedPrompt'',
                JStr ''Be kind.\<newline>\<newline># Additional manual instructions\<newline>Be brief'')])"
    using t [THEN conjunct1] unfolding u' .
  have ok2: "rows (snd (improve_ai_manually_endpoint ?e ?s ?b)) =
     [\<lparr>version = 3, prompt_text = ''Be kind.'', created_at = ''t3''\<rparr>,
      \<lparr>version = 4,
       prompt_text = ''Be kind.\<newline>\<newline># Additional manual instructions\<newline>Be brief'',
       created_at = ''2024-01-01T00:00:00''\<rparr>]"
    using t [THEN conjunct2, THEN conjunct1] unfolding u' v by simp
  have bad: "\<exists>msg. improve_ai_manually_endpoint ?e ?s (Some (JObj [(''instructions'', JStr ''  '')])) =
     (Response 400 (error_body msg), ?s)"
    using improve_ai_manually_endpoint_appends_instructions [OF b2, of ?e ?s] nb by blast
  from b ok1 ok2 bad show ?thesis by blast
qed

section \<open>Facts about the automatic improvement\<close>

lemma ai_failure_response_not_200: "ai_failure_response e exn \<noteq> Response 200 b"
  by (cases exn) (simp_all add: ai_failure_response_def)

lemma extract_field_Inr:
  "extract_field field missing parsed = Inr v \<Longrightarrow> \<exists>d. parsed = JObj d \<and> dict_get d field = JStr v"
  by (cases parsed) (auto simp: extract_field_def split: json.splits)

lemma improve_prompt_with_editor_Inr:
  assumes "improve_prompt_with_editor e s existing client_seq history consultant_text predicted
             = (Inr u, s')"
  shows "\<exists>req content d.
           system_content req = EDITOR_PROMPT \<and>
           llm e (llm_calls s) req = Completion content \<and>
           json_loads e (content_or_empty_object content) = Loaded (JObj d) \<and>
           dict_get d ''prompt'' = JStr u"
proof -
  let ?req = "\<lparr>system_content = EDITOR_PROMPT,
               user_payload = JObj [(''existingPrompt'', JStr existing),
                                    (''clientSequence'', client_seq),
                                    (''chatHistory'', JArr (map JObj history)),
                                    (''consultantReply'', consultant_text),
                                    (''predictedReply'', JStr predicted)],
               temperature_tenths = 3\<rparr>"
  from assms have k: "has_api_key e"
    by (auto simp: improve_prompt_with_editor_def split: if_splits)
  from assms k obtain content where c: "llm e (llm_calls s) ?req = Completion content"
    by (cases "llm e (llm_calls s) ?req")
       (auto simp: improve_prompt_with_editor_def Let_def)
  from assms k c obtain parsed
    where p: "json_loads e (content_or_empty_object content) = Loaded parsed"
      and x: "extract_field ''prompt'' MissingPrompt parsed = Inr u"
    by (cases "json_loads e (content_or_empty_object content)")
       (auto simp: improve_prompt_with_editor_def Let_def)
  from x obtain d where "parsed = JObj d" "dict_get d ''prompt'' = JStr u"
    using extract_field_Inr by blast
  with p c have "system_content ?req = EDITOR_PROMPT \<and>
           llm e (llm_calls s) ?req = Completion content \<and>
           json_loads e (content_or_empty_object content) = Loaded (JObj d) \<and>
           dict_get d ''prompt'' = JStr u"
    by simp
  then show ?thesis by blast
qed

lemma improve_ai_endpoint_200:
  assumes "improve_ai_endpoint e s body = (Response 200 b, s')"
  shows "\<exists>p u s2 s3 existing client_seq history consultant_text saved.
           improve_prompt_with_editor e s2 existing client_seq history consultant_text p
             = (Inr u, s3) \<and>
           save_new_prompt (utcnow e) s3 u = (Inr saved, s') \<and>
           b = JObj [(''predictedReply'', JStr p), (''updatedPrompt'', JStr u)]"
  using assms
  apply (auto simp: improve_ai_endpoint_def Let_def ai_failure_response_not_200 error_body_def
           split: json.splits if_splits sum.splits prod.splits)
  apply blast
  done

lemma improve_ai_manually_endpoint_200:
  assumes "improve_ai_manually_endpoint e s body = (Response 200 b, s')"
  shows "\<exists>data instr. get_json_or_empty body = JObj data \<and>
           dict_get data ''instructions'' = JStr instr \<and> py_strip instr \<noteq> []"
  using assms
  by (auto simp: improve_ai_manually_endpoint_def Let_def error_body_def
           split: json.splits if_splits sum.splits prod.splits)

lemma improve_ai_manually_returns_saved:
  assumes "get_json_or_empty body = JObj data"
    and "dict_get data ''instructions'' = JStr instr"
    and "py_strip instr \<noteq> []"
  shows "\<exists>u t s1 s2.
           improve_ai_manually_endpoint e s body =
             (Response 200 (JObj [(''updatedPrompt'', JStr u)]), s2) \<and>
           save_new_prompt (utcnow e) s1 t = (Inr u, s2) \<and>
           rows s2 \<noteq> [] \<and> prompt_text (last (rows s2)) = u \<and>
           fst (get_latest_prompt (utcnow e) s2) = u \<and> py_strip u = u"
proof -
  obtain cur s1 where g: "get_latest_prompt (utcnow e) s = (cur, s1)" by fastforce
  define t where "t = py_strip cur @ manual_separator @ py_strip instr"
  define u where "u = py_strip t"
  define s2 where "s2 = insert_row (utcnow e) (current_version (rows s1) + 1) u s1"
  have run: "improve_ai_manually_endpoint e s body =
               (Response 200 (JObj [(''updatedPrompt'', JStr u)]), s2)"
    unfolding improve_ai_manually_valid [OF assms g] u_def t_def s2_def ..
  have "\<not> list_all is_space (py_strip instr)"
    using assms(3) by (simp add: blank_py_strip py_strip_Nil_iff)
  then have "\<not> list_all is_space t" by (simp add: t_def)
  then have sv: "save_new_prompt (utcnow e) s1 t = (Inr u, s2)"
    unfolding u_def s2_def by (rule save_new_prompt_ok)
  have "\<exists>pre. u = pre @ ''# Additional manual instructions'' @ ''\<newline>'' @ py_strip instr"
    unfolding u_def t_def using assms(3) by (rule manual_update_stripped)
  then have ne: "u \<noteq> []" by auto
  have gl: "get_latest_prompt (utcnow e) s2 = (u, s2)"
    unfolding s2_def using ne by (rule get_latest_prompt_after_insert)
  have idem: "py_strip u = u" unfolding u_def by (rule py_strip_idem)
  have rw: "rows s2 \<noteq> [] \<and> prompt_text (last (rows s2)) = u"
    by (simp add: s2_def rows_insert_row)
  from run sv gl idem rw
  have "improve_ai_manually_endpoint e s body =
             (Response 200 (JObj [(''updatedPrompt'', JStr u)]), s2) \<and>
           save_new_prompt (utcnow e) s1 t = (Inr u, s2) \<and>
           rows s2 \<noteq> [] \<and> prompt_text (last (rows s2)) = u \<and>
           fst (get_latest_prompt (utcnow e) s2) = u \<and> py_strip u = u"
    by simp
  then show ?thesis by blast
qed

lemma stripped_differs:
  assumes "py_strip u \<noteq> []" and "is_space (hd u) \<or> is_space (last u)"
  shows "u \<noteq> py_strip u"
  using assms py_strip_ends [of u] by auto

section \<open>Claims about the prompt returned and the prompt stored\<close>

text \<open>
  C10. When the handler of \<^verbatim>\<open>/improve-ai\<close> answers 200, the \<^verbatim>\<open>updatedPrompt\<close> of the
  body is the string under \<^verbatim>\<open>prompt\<close> in a completion of the editor, as it came; the row
  appended to the table holds its trimmed form, and that trimmed form is what
  \<open>get_latest_prompt\<close> returns afterwards. So an \<^verbatim>\<open>updatedPrompt\<close> that starts or ends with
  whitespace differs from the latest stored prompt. The handler of
  \<^verbatim>\<open>/improve-ai-manually\<close>, for every request whose body is an object with an
  \<^verbatim>\<open>instructions\<close> string that is not blank, answers 200 with the value that
  \<open>save_new_prompt\<close> returned as \<^verbatim>\<open>updatedPrompt\<close>: it is the text of the appended row,
  already trimmed, and is what \<open>get_latest_prompt\<close> returns afterwards; and whenever that
  handler answers 200 this is so.
\<close>

theorem improve_ai_returns_untrimmed_prompt:
  "(improve_ai_endpoint e s body = (Response 200 b, s') \<longrightarrow>
      (\<exists>p u. b = JObj [(''predictedReply'', JStr p), (''updatedPrompt'', JStr u)] \<and>
         (\<exists>n req content d.
            system_content req = EDITOR_PROMPT \<and> llm e n req = Completion content \<and>
            json_loads e (content_or_empty_object content) = Loaded (JObj d) \<and>
            dict_get d ''prompt'' = JStr u) \<and>
         rows s' \<noteq> [] \<and> prompt_text (last (rows s')) = py_strip u \<and>
         fst (get_latest_prompt (utcnow e) s') = py_strip u \<and>
         (is_space (hd u) \<or> is_space (last u) \<longrightarrow>
            u \<noteq> fst (get_latest_prompt (utcnow e) s')))) \<and>
   (\<forall>data instr.
      get_json_or_empty body = JObj data \<longrightarrow>
      dict_get data ''instructions'' = JStr instr \<longrightarrow> py_strip instr \<noteq> [] \<longrightarrow>
      (\<exists>u t s1 s2.
         improve_ai_manually_endpoint e s body =
           (Response 200 (JObj [(''updatedPrompt'', JStr u)]), s2) \<and>
         save_new_prompt (utcnow e) s1 t = (Inr u, s2) \<and>
         rows s2 \<noteq> [] \<and> prompt_text (last (rows s2)) = u \<and>
         fst (get_latest_prompt (utcnow e) s2) = u \<and> py_strip u = u)) \<and>
   (improve_ai_manually_endpoint e s body = (Response 200 b, s') \<longrightarrow>
      (\<exists>u. b = JObj [(''updatedPrompt'', JStr u)] \<and>
         rows s' \<noteq> [] \<and> prompt_text (last (rows s')) = u \<and>
         fst (get_latest_prompt (utcnow e) s') = u \<and> py_strip u = u))"
proof (intro conjI impI allI)
  assume "improve_ai_endpoint e s body = (Response 200 b, s')"
  from improve_ai_endpoint_200 [OF this]
  obtain p u s2 s3 existing client_seq history consultant_text saved
    where ed: "improve_prompt_with_editor e s2 existing client_seq history consultant_text p
                 = (Inr u, s3)"
      and sv: "save_new_prompt (utcnow e) s3 u = (Inr saved, s')"
      and b: "b = JObj [(''predictedReply'', JStr p), (''updatedPrompt'', JStr u)]"
    by (elim exE conjE) (rule that)
  from sv have nb: "\<not> list_all is_space u"
    and s': "s' = insert_row (utcnow e) (current_version (rows s3) + 1) (py_strip u) s3"
    by (rule save_new_prompt_Inr)+
  from nb have ne: "py_strip u \<noteq> []" by (simp add: py_strip_Nil_iff)
  have g: "get_latest_prompt (utcnow e) s' = (py_strip u, s')"
    unfolding s' using ne by (rule get_latest_prompt_after_insert)
  have verbatim: "\<exists>n req content d.
            system_content req = EDITOR_PROMPT \<and> llm e n req = Completion content \<and>
            json_loads e (content_or_empty_object content) = Loaded (JObj d) \<and>
            dict_get d ''prompt'' = JStr u"
    using improve_prompt_with_editor_Inr [OF ed] by blast
  have differs: "is_space (hd u) \<or> is_space (last u) \<longrightarrow>
                   u \<noteq> fst (get_latest_prompt (utcnow e) s')"
    using ne by (simp add: g stripped_differs)
  have "rows s' \<noteq> [] \<and> prompt_text (last (rows s')) = py_strip u"
    by (simp add: s' rows_insert_row)
  with b verbatim differs g
  show "\<exists>p u. b = JObj [(''predictedReply'', JStr p), (''updatedPrompt'', JStr u)] \<and>
         (\<exists>n req content d.
            system_content req = EDITOR_PROMPT \<and> llm e n req = Completion content \<and>
            json_loads e (content_or_empty_object content) = Loaded (JObj d) \<and>
            dict_get d ''prompt'' = JStr u) \<and>
         rows s' \<noteq> [] \<and> prompt_text (last (rows s')) = py_strip u \<and>
         fst (get_latest_prompt (utcnow e) s') = py_strip u \<and>
         (is_space (hd u) \<or> is_space (last u) \<longrightarrow>
            u \<noteq> fst (get_latest_prompt (utcnow e) s'))"
    by (intro exI [of _ p] exI [of _ u]) simp
next
  fix data instr
  assume "get_json_or_empty body = JObj data"
    and "dict_get data ''instructions'' = JStr instr" and "py_strip instr \<noteq> []"
  then show "\<exists>u t s1 s2.
         improve_ai_manually_endpoint e s body =
           (Response 200 (JObj [(''updatedPrompt'', JStr u)]), s2) \<and>
         save_new_prompt (utcnow e) s1 t = (Inr u, s2) \<and>
         rows s2 \<noteq> [] \<and> prompt_text (last (rows s2)) = u \<and>
         fst (get_latest_prompt (utcnow e) s2) = u \<and> py_strip u = u"
    by (rule improve_ai_manually_returns_saved)
next
  assume a: "improve_ai_manually_endpoint e s body = (Response 200 b, s')"
  from improve_ai_manually_endpoint_200 [OF a]
  obtain data instr where d: "get_json_or_empty body = JObj data"
    and i: "dict_get data ''instructions'' = JStr instr" and n: "py_strip instr \<noteq> []"
    by (elim exE conjE) (rule that)
  from improve_ai_manually_returns_saved [OF d i n, of e s]
  obtain u s2 where r: "improve_ai_manually_endpoint e s body =
                          (Response 200 (JObj [(''updatedPrompt'', JStr u)]), s2)"
    and p: "rows s2 \<noteq> []" "prompt_text (last (rows s2)) = u"
      "fst (get_latest_prompt (utcnow e) s2) = u" "py_strip u = u"
    by (elim exE conjE) (rule that)
  from a r have "b = JObj [(''updatedPrompt'', JStr u)]" "s' = s2" by simp_all
  with p show "\<exists>u. b = JObj [(''updatedPrompt'', JStr u)] \<and>
         rows s' \<noteq> [] \<and> prompt_text (last (rows s')) = u \<and>
         fst (get_latest_prompt (utcnow e) s') = u \<and> py_strip u = u"
    by (intro exI [of _ u]) simp
qed

theorem improve_ai_returns_untrimmed_prompt_witness:
  \<open>improve_ai_endpoint
     \<lparr>api_key = Some ''sk-test'',
      json_loads = (\<lambda>t. if t = ''{"reply": "Hello"}'' then Loaded (JObj [(''reply'', JStr ''Hello'')])
                         else if t = ''{"prompt": " Be kind. "}''
                         then Loaded (JObj [(''prompt'', JStr '' Be kind. '')]) else JSONDecodeError),
      py_str = (\<lambda>v. ''''),
      llm = (\<lambda>n req. if n = 0 then Completion (Some ''{"reply": "Hello"}'')
                       else Completion (Some ''{"prompt": " Be kind. "}'')),
      utcnow = (\<lambda>n. ''2024-01-01T00:00:00'')\<rparr>
     \<lparr>rows = [\<lparr>version = 3, prompt_text = ''Be nice.'', created_at = ''t3''\<rparr>],
      clock_reads = 3, llm_calls = 0\<rparr>
     (Some (JObj [(''clientSequence'', JStr ''hi''), (''consultantReply'', JStr ''hello'')])) =
     (Response 200 (JObj [(''predictedReply'', JStr ''Hello''),
                          (''updatedPrompt'', JStr '' Be kind. '')]),
      \<lparr>rows = [\<lparr>version = 3, prompt_text = ''Be nice.'', created_at = ''t3''\<rparr>,
                \<lparr>version = 4, prompt_text = ''Be kind.'', created_at = ''2024-01-01T00:00:00''\<rparr>],
       clock_reads = 4, llm_calls = 2\<rparr>) \<and>
   fst (get_latest_prompt (\<lambda>n. ''2024-01-01T00:00:00'')
      \<lparr>rows = [\<lparr>version = 3, prompt_text = ''Be nice.'', created_at = ''t3''\<rparr>,
                \<lparr>version = 4, prompt_text = ''Be kind.'', created_at = ''2024-01-01T00:00:00''\<rparr>],
       clock_reads = 4, llm_calls = 2\<rparr>) = ''Be kind.'' \<and>
   '' Be kind. '' \<noteq> fst (get_latest_prompt (\<lambda>n. ''2024-01-01T00:00:00'')
      \<lparr>rows = [\<lparr>version = 3, prompt_text = ''Be nice.'', created_at = ''t3''\<rparr>,
                \<lparr>version = 4, prompt_text = ''Be kind.'', created_at = ''2024-01-01T00:00:00''\<rparr>],
       clock_reads = 4, llm_calls = 2\<rparr>) \<and>
   improve_ai_manually_endpoint
     \<lparr>api_key = Some ''sk-test'',
      json_loads = (\<lambda>t. if t = ''{"reply": "Hello"}'' then Loaded (JObj [(''reply'', JStr ''Hello'')])
                         else if t = ''{"prompt": " Be kind. "}''
                         then Loaded (JObj [(''prompt'', JStr '' Be kind. '')]) else JSONDecodeError),
      py_str = (\<lambda>v. ''''),
      llm = (\<lambda>n req. if n = 0 then Completion (Some ''{"reply": "Hello"}'')
                       else Completion (Some ''{"prompt": " Be kind. "}'')),
      utcnow = (\<lambda>n. ''2024-01-01T00:00:00'')\<rparr>
     \<lparr>rows = [\<lparr>version = 3, prompt_text = ''Be nice.'', created_at = ''t3''\<rparr>],
      clock_reads = 3, llm_calls = 0\<rparr>
     (Some (JObj [(''instructions'', JStr '' Be brief '')])) =
     (Response 200
        (JObj [(''updatedPrompt'',
                JStr ''Be nice.\<newline>\<newline># Additional manual instructions\<newline>Be brief'')]),
      \<lparr>rows = [\<lparr>version = 3, prompt_text = ''Be nice.'', created_at = ''t3''\<rparr>,
                \<lparr>version = 4,
                 prompt_text = ''Be nice.\<newline>\<newline># Additional manual instructions\<newline>Be brief'',
                 created_at = ''2024-01-01T00:00:00''\<rparr>],
       clock_reads = 4, llm_calls = 0\<rparr>) \<and>
   fst (get_latest_prompt (\<lambda>n. ''2024-01-01T00:00:00'')
      \<lparr>rows = [\<lparr>version = 3, prompt_text = ''Be nice.'', created_at = ''t3''\<rparr>,
                \<lparr>version = 4,
                 prompt_text = ''Be nice.\<newline>\<newline># Additional manual instructions\<newline>Be brief'',
                 created_at = ''2024-01-01T00:00:00''\<rparr>],
       clock_reads = 4, llm_calls = 0\<rparr>) =
     ''Be nice.\<newline>\<newline># Additional manual instructions\<newline>Be brief''\<close>
proof -
  let ?e = \<open>\<lparr>api_key = Some ''sk-test'',
      json_loads = (\<lambda>t. if t = ''{"reply": "Hello"}'' then Loaded (JObj [(''reply'', JStr ''Hello'')])
                         else if t = ''{"prompt": " Be kind. "}''
                         then Loaded (JObj [(''prompt'', JStr '' Be kind. '')]) else JSONDecodeError),
      py_str = (\<lambda>v. ''''),
      llm = (\<lambda>n req. if n = 0 then Completion (Some ''{"reply": "Hello"}'')
                       else Completion (Some ''{"prompt": " Be kind. "}'')),
      utcnow = (\<lambda>n. ''2024-01-01T00:00:00'')\<rparr>\<close>
  let ?s = "\<lparr>rows = [\<lparr>version = 3, prompt_text = ''Be nice.'', created_at = ''t3''\<rparr>],
      clock_reads = 3, llm_calls = 0\<rparr>"
  let ?s' = "\<lparr>rows = [\<lparr>version = 3, prompt_text = ''Be nice.'', created_at = ''t3''\<rparr>,
                \<lparr>version = 4, prompt_text = ''Be kind.'', created_at = ''2024-01-01T00:00:00''\<rparr>],
       clock_reads = 4, llm_calls = 2\<rparr>"
  let ?body = "Some (JObj [(''clientSequence'', JStr ''hi''), (''consultantReply'', JStr ''hello'')])"
  let ?b = "JObj [(''predictedReply'', JStr ''Hello''), (''updatedPrompt'', JStr '' Be kind. '')]"
  let ?mbody = "Some (JObj [(''instructions'', JStr '' Be brief '')])"
  let ?mu = "''Be nice.\<newline>\<newline># Additional manual instructions\<newline>Be brief''"
  let ?ms = "\<lparr>rows = [\<lparr>version = 3, prompt_text = ''Be nice.'', created_at = ''t3''\<rparr>,
                \<lparr>version = 4, prompt_text = ?mu, created_at = ''2024-01-01T00:00:00''\<rparr>],
       clock_reads = 4, llm_calls = 0\<rparr>"
  have run: "improve_ai_endpoint ?e ?s ?body = (Response 200 ?b, ?s')"
    by (simp add: improve_ai_endpoint_def get_json_or_empty_def dict_get_def
          dict_get_default_def is_nonblank_str_def py_strip_def is_space_def
          normalize_entries_def generate_chat_reply_def get_latest_prompt_def
          fetch_latest_text_def select_latest_def order_by_version_desc_def has_api_key_def
          content_or_empty_object_def extract_field_def improve_prompt_with_editor_def
          save_new_prompt_def insert_row_def current_version_def Let_def)
  have sp: "is_space (hd '' Be kind. '')" by (simp add: is_space_def)
  from improve_ai_returns_untrimmed_prompt [of ?e ?s ?body ?b ?s', THEN conjunct1, rule_format, OF run]
  obtain p u where b: "?b = JObj [(''predictedReply'', JStr p), (''updatedPrompt'', JStr u)]"
    and l: "fst (get_latest_prompt (utcnow ?e) ?s') = py_strip u"
    and d: "is_space (hd u) \<or> is_space (last u) \<longrightarrow> u \<noteq> fst (get_latest_prompt (utcnow ?e) ?s')"
    by (elim exE conjE) (rule that)
  from b have u: "u = '' Be kind. ''" by simp
  have "py_strip '' Be kind. '' = ''Be kind.''" by (simp add: py_strip_def is_space_def)
  with l u have l': "fst (get_latest_prompt (utcnow ?e) ?s') = ''Be kind.''" by simp
  from d u sp have d': "'' Be kind. '' \<noteq> fst (get_latest_prompt (utcnow ?e) ?s')" by simp
  have mrun: "improve_ai_manually_endpoint ?e ?s ?mbody =
                (Response 200 (JObj [(''updatedPrompt'', JStr ?mu)]), ?ms)"
    by (simp add: improve_ai_manually_endpoint_def get_json_or_empty_def dict_get_def
          py_strip_def is_space_def manual_separator_def get_latest_prompt_def
          fetch_latest_text_def select_latest_def order_by_version_desc_def
          save_new_prompt_def insert_row_def current_version_def Let_def)
  have mb: "get_json_or_empty ?mbody = JObj [(''instructions'', JStr '' Be brief '')]"
    by (rule get_json_or_empty_object)
  have mi: "dict_get [(''instructions'', JStr '' Be brief '')] ''instructions'' = JStr '' Be brief ''"
    by (simp add: dict_get_def)
  have mn: "py_strip '' Be brief '' \<noteq> []" by (simp add: py_strip_def is_space_def)
  from improve_ai_returns_untrimmed_prompt
         [of ?e ?s ?mbody ?b ?s', THEN conjunct2, THEN conjunct1, rule_format, OF mb mi mn]
  obtain mu ms where r: "improve_ai_manually_endpoint ?e ?s ?mbody =
                           (Response 200 (JObj [(''updatedPrompt'', JStr mu)]), ms)"
    and ml: "fst (get_latest_prompt (utcnow ?e) ms) = mu"
    by (elim exE conjE) (rule that)
  have "mu = ?mu" "ms = ?ms" using r unfolding mrun by auto
  with ml have ml': "fst (get_latest_prompt (utcnow ?e) ?ms) = ?mu" by simp
  from run l' d' mrun ml' show ?thesis by simp
qed

section \<open>The loop of the pipeline, one sample at a time\<close>

text \<open>
  What the loop does with a sample in the two cases the \<^verbatim>\<open>try\<close> is written for. The calls
  to the completion service leave the table alone, apart from the seeding that reading the
  current prompt may do.
\<close>

lemma generate_chat_reply_rows:
  "rows (snd (generate_chat_reply e s payload)) = rows (snd (get_latest_prompt (utcnow e) s))"
proof -
  obtain bp s1 where g: "get_latest_prompt (utcnow e) s = (bp, s1)" by fastforce
  show ?thesis
    by (simp add: generate_chat_reply_def g Let_def split: llm_result.splits loads_result.splits)
qed

lemma improve_prompt_with_editor_rows:
  "rows (snd (improve_prompt_with_editor e s existing client_seq history consultant_text predicted))
     = rows s"
  by (simp add: improve_prompt_with_editor_def Let_def
        split: llm_result.splits loads_result.splits)

lemma save_new_prompt_no_ai_error:
  "fst (save_new_prompt now s t) \<noteq> Inl (AIClientError err)"
  by (simp add: save_new_prompt_def)

lemma learn_from_sample_ai_error:
  assumes "learn_from_sample e s prompt c h r = (Inl (AIClientError err, p'), s')"
  shows "p' = prompt \<and> rows s' = rows (snd (get_latest_prompt (utcnow e) s))"
proof -
  let ?payload = "JObj [(''clientSequence'', JStr c), (''chatHistory'', JArr (map JObj h))]"
  obtain g s1 where g: "generate_chat_reply e s ?payload = (g, s1)" by fastforce
  have r1: "rows s1 = rows (snd (get_latest_prompt (utcnow e) s))"
    using generate_chat_reply_rows [of e s ?payload] g by simp
  show ?thesis
  proof (cases g)
    case (Inl exn)
    with assms g r1 show ?thesis by (simp add: learn_from_sample_def)
  next
    case (Inr predicted)
    obtain i s2 where i: "improve_prompt_with_editor e s1 prompt (JStr c) h (JStr r) predicted = (i, s2)"
      by fastforce
    have r2: "rows s2 = rows s1"
      using improve_prompt_with_editor_rows [of e s1 prompt "JStr c" h "JStr r" predicted] i
      by simp
    show ?thesis
    proof (cases i)
      case (Inl exn)
      with assms g Inr i r1 r2 show ?thesis by (simp add: learn_from_sample_def)
    next
      case new: (Inr new_prompt)
      obtain v s3 where v: "save_new_prompt (utcnow e) s2 new_prompt = (v, s3)" by fastforce
      have "v \<noteq> Inl (AIClientError err)"
        using save_new_prompt_no_ai_error [of "utcnow e" s2 new_prompt err] v by simp
      with assms g Inr i new v show ?thesis
        by (cases v) (auto simp: learn_from_sample_def)
    qed
  qed
qed

lemma learn_from_sample_saved:
  assumes "learn_from_sample e s prompt c h r = (Inr p', s')"
  shows "\<not> list_all is_space p' \<and>
         rows s' = rows (snd (get_latest_prompt (utcnow e) s)) @ [last (rows s')] \<and>
         prompt_text (last (rows s')) = py_strip p' \<and>
         fst (get_latest_prompt (utcnow e) s') = py_strip p'"
proof -
  let ?payload = "JObj [(''clientSequence'', JStr c), (''chatHistory'', JArr (map JObj h))]"
  obtain g s1 where g: "generate_chat_reply e s ?payload = (g, s1)" by fastforce
  have r1: "rows s1 = rows (snd (get_latest_prompt (utcnow e) s))"
    using generate_chat_reply_rows [of e s ?payload] g by simp
  from assms g obtain predicted where p: "g = Inr predicted"
    by (cases g) (simp_all add: learn_from_sample_def)
  obtain i s2 where i: "improve_prompt_with_editor e s1 prompt (JStr c) h (JStr r) predicted = (i, s2)"
    by fastforce
  have r2: "rows s2 = rows s1"
    using improve_prompt_with_editor_rows [of e s1 prompt "JStr c" h "JStr r" predicted] i
    by simp
  from assms g p i obtain new_prompt where n: "i = Inr new_prompt"
    by (cases i) (simp_all add: learn_from_sample_def)
  obtain v s3 where v: "save_new_prompt (utcnow e) s2 new_prompt = (v, s3)" by fastforce
  from assms g p i n v obtain saved where sv: "v = Inr saved" and eq: "p' = new_prompt" "s' = s3"
    by (cases v) (simp_all add: learn_from_sample_def)
  from v sv eq have sv': "save_new_prompt (utcnow e) s2 p' = (Inr saved, s')" by simp
  have nb: "\<not> list_all is_space p'"
    and s': "s' = insert_row (utcnow e) (current_version (rows s2) + 1) (py_strip p') s2"
    using sv' by (rule save_new_prompt_Inr)+
  from nb have ne: "py_strip p' \<noteq> []" by (simp add: py_strip_Nil_iff)
  have "get_latest_prompt (utcnow e) s' = (py_strip p', s')"
    unfolding s' using ne by (rule get_latest_prompt_after_insert)
  moreover have "rows s' = rows (snd (get_latest_prompt (utcnow e) s)) @ [last (rows s')]"
    by (simp add: s' rows_insert_row r2 r1)
  moreover have "prompt_text (last (rows s')) = py_strip p'"
    by (simp add: s' rows_insert_row)
  ultimately show ?thesis using nb by simp
qed

lemma pipeline_loop_step:
  assumes "join_lines (client_sequence smp) = Inr c"
    and "join_lines (consultant_reply smp) = Inr r"
  shows "learn_from_sample e s prompt c (history_for_model (chat_history smp)) r = (Inr p', s') \<Longrightarrow>
           pipeline_loop e idx (smp # rest) prompt logs s =
             pipeline_loop e (Suc idx) rest p' (logs @ [Updated idx (contact_id smp)]) s'"
    and "learn_from_sample e s prompt c (history_for_model (chat_history smp)) r =
           (Inl (AIClientError err, p'), s') \<Longrightarrow>
           pipeline_loop e idx (smp # rest) prompt logs s =
             pipeline_loop e (Suc idx) rest prompt (logs @ [Skipped idx err]) s'"
proof -
  show "pipeline_loop e idx (smp # rest) prompt logs s =
          pipeline_loop e (Suc idx) rest p' (logs @ [Updated idx (contact_id smp)]) s'"
    if "learn_from_sample e s prompt c (history_for_model (chat_history smp)) r = (Inr p', s')"
    using assms that by simp
  show "pipeline_loop e idx (smp # rest) prompt logs s =
          pipeline_loop e (Suc idx) rest prompt (logs @ [Skipped idx err]) s'"
    if a: "learn_from_sample e s prompt c (history_for_model (chat_history smp)) r =
             (Inl (AIClientError err, p'), s')"
  proof -
    have "p' = prompt" using learn_from_sample_ai_error [OF a] by simp
    with assms a show ?thesis by simp
  qed
qed

lemma py_prefix_take: "0 \<le> n \<Longrightarrow> py_prefix n xs = take (nat n) xs"
  by (simp add: py_prefix_def)

lemma py_prefix_length: "0 \<le> n \<Longrightarrow> length (py_prefix n xs) \<le> nat n"
  by (simp add: py_prefix_def)

section \<open>An editor prompt that is all whitespace\<close>

text \<open>
  C8 says that every answer of a handler is its success body or a JSON body with one error
  message, also when the editor returns a prompt that is all whitespace. Here the editor's
  completion is \<^verbatim>\<open>{"prompt": "   "}\<close>: both calls to the completion service succeed,
  \<open>save_new_prompt\<close> raises \<^verbatim>\<open>ValueError\<close>, and the handler of \<^verbatim>\<open>/improve-ai\<close>, which only
  catches \<^verbatim>\<open>AIClientError\<close>, returns neither body. Nothing is stored.
\<close>

theorem improve_ai_endpoint_blank_editor_prompt_unhandled:
  \<open>improve_ai_endpoint
     \<lparr>api_key = Some ''sk-test'',
      json_loads = (\<lambda>t. if t = ''{"reply": "Hello"}'' then Loaded (JObj [(''reply'', JStr ''Hello'')])
                         else if t = ''{"prompt": "   "}''
                         then Loaded (JObj [(''prompt'', JStr ''   '')]) else JSONDecodeError),
      py_str = (\<lambda>v. ''''),
      llm = (\<lambda>n req. if n = 0 then Completion (Some ''{"reply": "Hello"}'')
                       else Completion (Some ''{"prompt": "   "}'')),
      utcnow = (\<lambda>n. ''2024-01-01T00:00:00'')\<rparr>
     \<lparr>rows = [\<lparr>version = 3, prompt_text = ''Be nice.'', created_at = ''t3''\<rparr>],
      clock_reads = 3, llm_calls = 0\<rparr>
     (Some (JObj [(''clientSequence'', JStr ''hi''), (''consultantReply'', JStr ''hello'')])) =
     (Unhandled (ValueError ''new_prompt must be a non-empty string''),
      \<lparr>rows = [\<lparr>version = 3, prompt_text = ''Be nice.'', created_at = ''t3''\<rparr>],
       clock_reads = 3, llm_calls = 2\<rparr>)\<close>
  by (simp add: improve_ai_endpoint_def get_json_or_empty_def dict_get_def
        dict_get_default_def is_nonblank_str_def py_strip_def is_space_def
        normalize_entries_def generate_chat_reply_def get_latest_prompt_def
        fetch_latest_text_def select_latest_def order_by_version_desc_def has_api_key_def
        content_or_empty_object_def extract_field_def improve_prompt_with_editor_def
        save_new_prompt_def Let_def)

text \<open>
  C9 says that a sample whose two calls succeed has its prompt stored before the next
  sample is taken, and that a failure only skips its sample. Here the transcript gives two
  samples and the editor's completion for the first is \<^verbatim>\<open>{"prompt": "   "}\<close>: both calls
  succeed, \<open>save_new_prompt\<close> raises \<^verbatim>\<open>ValueError\<close> inside the \<^verbatim>\<open>try\<close>, which only catches
  \<^verbatim>\<open>AIClientError\<close>, and the run ends there: nothing is stored and the second sample is
  never taken (two calls were made, not four).
\<close>

theorem run_self_learning_pipeline_blank_editor_prompt_aborts:
  \<open>build_samples
     [\<lparr>conv_contact_id = Some (JStr ''c1''), conv_scenario = None,
       conv_messages = Some [message ''in'' ''hi'', message ''out'' ''hello'',
                             message ''in'' ''price?'', message ''out'' ''10k'']\<rparr>] =
     [\<lparr>contact_id = JStr ''c1'', scenario = JStr '''',
       client_sequence = [JStr ''hi''], consultant_reply = [JStr ''hello''],
       chat_history = []\<rparr>,
      \<lparr>contact_id = JStr ''c1'', scenario = JStr '''',
       client_sequence = [JStr ''price?''], consultant_reply = [JStr ''10k''],
       chat_history = [message ''in'' ''hi'', message ''out'' ''hello'']\<rparr>] \<and>
   run_self_learning_pipeline
     \<lparr>api_key = Some ''sk-test'',
      json_loads = (\<lambda>t. if t = ''{"reply": "Hello"}'' then Loaded (JObj [(''reply'', JStr ''Hello'')])
                         else if t = ''{"prompt": "   "}''
                         then Loaded (JObj [(''prompt'', JStr ''   '')]) else JSONDecodeError),
      py_str = (\<lambda>v. ''''),
      llm = (\<lambda>n req. if n = 0 then Completion (Some ''{"reply": "Hello"}'')
                       else Completion (Some ''{"prompt": "   "}'')),
      utcnow = (\<lambda>n. ''2024-01-01T00:00:00'')\<rparr>
     \<lparr>rows = [\<lparr>version = 3, prompt_text = ''Be nice.'', created_at = ''t3''\<rparr>],
      clock_reads = 3, llm_calls = 0\<rparr>
     [\<lparr>conv_contact_id = Some (JStr ''c1''), conv_scenario = None,
       conv_messages = Some [message ''in'' ''hi'', message ''out'' ''hello'',
                             message ''in'' ''price?'', message ''out'' ''10k'']\<rparr>]
     (Some 20) =
     (Inl (ValueError ''new_prompt must be a non-empty string''),
      \<lparr>rows = [\<lparr>version = 3, prompt_text = ''Be nice.'', created_at = ''t3''\<rparr>],
       clock_reads = 3, llm_calls = 2\<rparr>)\<close>
proof -
  let ?cs = "[\<lparr>conv_contact_id = Some (JStr ''c1''), conv_scenario = None,
       conv_messages = Some [message ''in'' ''hi'', message ''out'' ''hello'',
                             message ''in'' ''price?'', message ''out'' ''10k'']\<rparr>]"
  have b: "build_samples ?cs =
     [\<lparr>contact_id = JStr ''c1'', scenario = JStr '''',
       client_sequence = [JStr ''hi''], consultant_reply = [JStr ''hello''],
       chat_history = []\<rparr>,
      \<lparr>contact_id = JStr ''c1'', scenario = JStr '''',
       client_sequence = [JStr ''price?''], consultant_reply = [JStr ''10k''],
       chat_history = [message ''in'' ''hi'', message ''out'' ''hello'']\<rparr>]"
    unfolding build_samples_spec
    by (simp add: spec_build_samples_def spec_samples_def run_starts_def sample_at_def
          is_in_def is_out_def message_def dict_get_def dict_get_default_def texts_of_def)
  show ?thesis
    unfolding run_self_learning_pipeline_def b
    by (simp add: py_prefix_def join_lines_def history_for_model_def learn_from_sample_def
          dict_get_def dict_get_default_def py_strip_def is_space_def
          generate_chat_reply_def get_latest_prompt_def
          fetch_latest_text_def select_latest_def order_by_version_desc_def has_api_key_def
          content_or_empty_object_def extract_field_def improve_prompt_with_editor_def
          save_new_prompt_def Let_def)
qed

end
